theory Spec2Isabelle
  imports Complex_Main "HOL-Library.Word"
begin

unbundle bit_operations_syntax

section \<open>JavaScript strings and values\<close>

text \<open>
  A JavaScript string is a sequence of UTF-16 code units; \<open>length\<close>, \<open>substring\<close>,
  \<open>slice\<close>, \<open>includes\<close> and \<open>===\<close> all work on code units. A string of the source is
  therefore a list of 16-bit words. \<open>js\<close> writes an ASCII literal of the source.
\<close>

type_synonym jschar = "16 word"
type_synonym jsstring = "jschar list"
type_synonym byte = "8 word"

definition js :: "string \<Rightarrow> jsstring" where
  "js s = map of_char s"

text \<open>\<open>s.startsWith(p)\<close> and \<open>s.includes(p)\<close> (named \<open>includes_str\<close> here).\<close>

fun startsWith :: "jsstring \<Rightarrow> jsstring \<Rightarrow> bool" where
  "startsWith s [] = True"
| "startsWith [] (p # ps) = False"
| "startsWith (c # cs) (p # ps) = (c = p \<and> startsWith cs ps)"

fun includes_str :: "jsstring \<Rightarrow> jsstring \<Rightarrow> bool" where
  "includes_str [] p = (p = [])"
| "includes_str (c # cs) p = (startsWith (c # cs) p \<or> includes_str cs p)"

text \<open>
  \<open>toLowerCase\<close>, exact on the code units up to U+00FF (A-Z, and the Latin-1 capitals
  U+00C0..U+00DE without the multiplication sign U+00D7). Code units above U+00FF are left
  as they are, where ECMAScript lower-cases further alphabets; every persona name, alias
  and marker of the source is ASCII.
\<close>

definition lower_unit :: "jschar \<Rightarrow> jschar" where
  "lower_unit c =
     (if (0x41 \<le> c \<and> c \<le> 0x5A) \<or> (0xC0 \<le> c \<and> c \<le> 0xDE \<and> c \<noteq> 0xD7)
      then c + 0x20 else c)"

definition toLowerCase :: "jsstring \<Rightarrow> jsstring" where
  "toLowerCase s = map lower_unit s"

text \<open>\<open>trim\<close> removes ECMAScript white space and line terminators at both ends.\<close>

definition is_white_space :: "jschar \<Rightarrow> bool" where
  "is_white_space c =
     ((0x09 \<le> c \<and> c \<le> 0x0D) \<or> c = 0x20 \<or> c = 0xA0 \<or> c = 0x1680
      \<or> (0x2000 \<le> c \<and> c \<le> 0x200A) \<or> c = 0x2028 \<or> c = 0x2029 \<or> c = 0x202F
      \<or> c = 0x205F \<or> c = 0x3000 \<or> c = 0xFEFF)"

definition trim :: "jsstring \<Rightarrow> jsstring" where
  "trim s = rev (dropWhile is_white_space (rev (dropWhile is_white_space s)))"

text \<open>A thrown JavaScript value (an \<open>Error\<close> with its message, or whatever was thrown).\<close>

datatype js_exception = JsError jsstring

section \<open>voice-service.ts: persona to voice resolution\<close>

text \<open>
  \<open>personaVoiceMap\<close> and \<open>personaAliases\<close> are object literals; \<open>Object.keys\<close> and
  \<open>Object.entries\<close> enumerate them in the order written, so they are association lists.
\<close>

definition personaVoiceMap :: "(jsstring \<times> jsstring) list" where
  "personaVoiceMap =
     [(js ''Leonardo da Vinci'', js ''iLVmqjzCGGvqtMCk6vVQ''),
      (js ''Steve Jobs'', js ''RScb7njQ3VwA2nyCsZX4''),
      (js ''Albert Einstein'', js ''e2odxVHlmLJ5GY1yuWNl''),
      (js ''Elon Musk'', js ''3ltnAVoovAIVA7uE9Zbz''),
      (js ''Walt Disney'', js ''1KmhFCCzy2hRrIDMEXFZ''),
      (js ''Emad Mostaque'', js ''OXihjRbFbxh4LfP9Wt5H''),
      (js ''Fei-Fei Li'', js ''JL6vl3xyRi3Ly7WoywNO'')]"

definition personaAliases :: "(jsstring \<times> jsstring list) list" where
  "personaAliases =
     [(js ''Fei-Fei Li'',
       [js ''fei fei li'', js ''fei-fei li'', js ''feifei li'', js ''fi fi lee'',
        js ''fei fei lee'', js ''fei-fei lee'', js ''fifi li'', js ''fei fei le'',
        js ''fei-fei le'', js ''fe fe li'', js ''fe fe le'', js ''fi fi li''])]"

text \<open>
  \<open>personaVoiceMap[name]\<close> reads an own property or, failing that, a property inherited
  from \<open>Object.prototype\<close> (a function, or the prototype itself for \<open>__proto__\<close>): a
  truthy value that is not a voice id string.
\<close>

datatype voice_ref = VoiceId jsstring | ProtoProperty jsstring

definition object_prototype_keys :: "jsstring list" where
  "object_prototype_keys =
     [js ''constructor'', js ''__defineGetter__'', js ''__defineSetter__'',
      js ''hasOwnProperty'', js ''__lookupGetter__'', js ''__lookupSetter__'',
      js ''isPrototypeOf'', js ''propertyIsEnumerable'', js ''toString'', js ''valueOf'',
      js ''__proto__'', js ''toLocaleString'']"

definition get_property :: "(jsstring \<times> jsstring) list \<Rightarrow> jsstring \<Rightarrow> voice_ref option" where
  "get_property obj k =
     (case map_of obj k of
        Some v \<Rightarrow> Some (VoiceId v)
      | None \<Rightarrow> if k \<in> set object_prototype_keys then Some (ProtoProperty k) else None)"

fun truthy :: "voice_ref option \<Rightarrow> bool" where
  "truthy None = False"
| "truthy (Some (VoiceId v)) = (v \<noteq> [])"
| "truthy (Some (ProtoProperty k)) = True"

text \<open>
  \<open>resolveVoiceIdForPersona\<close> (voice-service.ts, lines 74-94). \<open>None\<close> is the source's
  \<open>null\<close> (and \<open>undefined\<close>, which the caller treats alike). The four stages are the
  source's: own or inherited property, case-insensitive key, alias table, containment.
\<close>

definition resolveVoiceIdForPersona :: "jsstring option \<Rightarrow> voice_ref option" where
  "resolveVoiceIdForPersona name_opt =
     (case name_opt of
        None \<Rightarrow> None
      | Some name \<Rightarrow>
          if name = [] then None
          else if truthy (get_property personaVoiceMap name)
          then get_property personaVoiceMap name
          else
            let normalized = trim (toLowerCase name) in
            (case find (\<lambda>(key, v). toLowerCase key = normalized) personaVoiceMap of
               Some (key, v) \<Rightarrow> get_property personaVoiceMap key
             | None \<Rightarrow>
                (case find (\<lambda>(canonical, aliases). \<exists>a \<in> set aliases. a = normalized)
                        personaAliases of
                   Some (canonical, aliases) \<Rightarrow> get_property personaVoiceMap canonical
                 | None \<Rightarrow>
                    (case find (\<lambda>(key, v). includes_str normalized (toLowerCase key)
                                           \<or> includes_str (toLowerCase key) normalized)
                            personaVoiceMap of
                       Some (key, v) \<Rightarrow> get_property personaVoiceMap key
                     | None \<Rightarrow> None))))"

section \<open>JSON values and fetch responses\<close>

text \<open>
  A value produced by \<open>JSON.parse\<close> or \<open>response.json()\<close>. An object is the list of its
  own properties in insertion order (the parser keeps one entry per key). A property that
  is absent reads as \<open>undefined\<close>, which is \<open>None\<close> below.
\<close>

datatype json =
    JNull
  | JBool bool
  | JNum rat
  | JStr jsstring
  | JArr "json list"
  | JObj "(jsstring \<times> json) list"

definition TypeError :: "string \<Rightarrow> js_exception" where
  "TypeError msg = JsError (js ''TypeError: '' @ js msg)"

text \<open>
  \<open>v.k\<close> for a key \<open>k\<close> that no prototype defines (\<open>voices\<close>, \<open>voice_id\<close>, \<open>name\<close>,
  \<open>type\<close>, \<open>challenge\<close>, ...): reading a property of \<open>null\<close> throws, an object gives its
  own property, every other value gives \<open>undefined\<close>.
\<close>

fun json_prop :: "json \<Rightarrow> jsstring \<Rightarrow> js_exception + json option" where
  "json_prop JNull k = Inl (TypeError ''Cannot read properties of null'')"
| "json_prop (JObj kvs) k = Inr (map_of kvs k)"
| "json_prop v k = Inr None"

text \<open>Truthiness of a value that may be \<open>undefined\<close>.\<close>

fun json_truthy :: "json option \<Rightarrow> bool" where
  "json_truthy None = False"
| "json_truthy (Some JNull) = False"
| "json_truthy (Some (JBool b)) = b"
| "json_truthy (Some (JNum n)) = (n \<noteq> 0)"
| "json_truthy (Some (JStr s)) = (s \<noteq> [])"
| "json_truthy (Some (JArr xs)) = True"
| "json_truthy (Some (JObj kvs)) = True"

text \<open>
  What \<open>fetch\<close> resolves to. \<open>resp_text\<close> is the outcome of the first \<open>text()\<close> on the
  response and \<open>resp_text_again\<close> that of a further \<open>text()\<close> on the same response object
  (under the Fetch standard a body that has been read rejects with a TypeError);
  \<open>resp_arrayBuffer\<close> and \<open>resp_json\<close> are the outcomes of reading the body that way.
  \<open>response.ok\<close> is derived from the status.
\<close>

record fetch_response =
  resp_status :: nat
  resp_statusText :: jsstring
  resp_text :: "js_exception + jsstring"
  resp_text_again :: "js_exception + jsstring"
  resp_arrayBuffer :: "js_exception + byte list"
  resp_json :: "js_exception + json"

definition ok :: "fetch_response \<Rightarrow> bool" where
  "ok r = (200 \<le> resp_status r \<and> resp_status r \<le> 299)"

text \<open>Decimal rendering of a number inside a template literal.\<close>

definition digit_unit :: "nat \<Rightarrow> jschar" where
  "digit_unit d = 0x30 + of_nat d"

fun decimal :: "nat \<Rightarrow> jsstring" where
  "decimal n = (if n < 10 then [digit_unit n] else decimal (n div 10) @ [digit_unit (n mod 10)])"

declare decimal.simps [simp del]

section \<open>voice-service.ts: synthesizeSpeech\<close>

record voice_service =
  apiKey :: jsstring
  useElevenLabs :: bool
  lastCallTimestamp :: int
  rateLimitDelay :: int

text \<open>The constructor: \<open>process.env.ELEVENLABS_API_KEY || ''\<close> and the field initialisers.\<close>

definition new_VoiceService :: "jsstring option \<Rightarrow> voice_service" where
  "new_VoiceService env_key =
     \<lparr> apiKey = (case env_key of None \<Rightarrow> [] | Some k \<Rightarrow> k),
       useElevenLabs = True,
       lastCallTimestamp = 0,
       rateLimitDelay = 1000 \<rparr>"

text \<open>The two shapes of the result: a \<open>Buffer\<close>, or \<open>{fallback: true, text, persona, reason}\<close>.\<close>

datatype synth_result =
    Audio "byte list"
  | Fallback (fb_text: jsstring) (fb_persona: "jsstring option") (fb_reason: jsstring)

text \<open>A request to the provider: the voice in the URL, the \<open>xi-api-key\<close> header, the text.\<close>

record tts_request =
  req_voice :: voice_ref
  req_key :: jsstring
  req_text :: jsstring

text \<open>
  What the world does during one call: the value of \<open>Date.now()\<close> when the call reads
  the clock (milliseconds), how much later than asked the timer fires, how long the
  \<open>n\<close>-th request takes, how long reading a body takes, and what the \<open>n\<close>-th request
  resolves to or throws.
\<close>

record synth_env =
  date_now :: int
  timer_lag :: nat
  latency :: "nat \<Rightarrow> nat"
  read_time :: nat
  fetch_tts :: "nat \<Rightarrow> tts_request \<Rightarrow> js_exception + fetch_response"

text \<open>
  What one call does: the settled promise (\<open>Inl\<close> a rejection), the provider requests
  with the time each one fired, the service object afterwards, and the time of return.
\<close>

record synth_outcome =
  returned :: "js_exception + synth_result"
  provider_calls :: "(int \<times> tts_request) list"
  service_after :: voice_service
  finished_at :: int

text \<open>Lines 35-38: \<open>text.length > maxChars ? text.substring(0, maxChars) + "..." : text\<close>.\<close>

definition truncatedText :: "jsstring \<Rightarrow> jsstring" where
  "truncatedText text = (if length text > 600 then take 600 text @ js ''...'' else text)"

text \<open>
  Lines 40-43. \<open>setTimeout\<close> of Node replaces a delay above \<open>2^31 - 1\<close> or below 1 by 1;
  the timer fires no sooner than its delay. The result is the time at which the call goes on.
\<close>

definition timer_delay :: "int \<Rightarrow> int" where
  "timer_delay d = (if d > 2147483647 \<or> d < 1 then 1 else d)"

definition rate_limit_resume :: "voice_service \<Rightarrow> int \<Rightarrow> nat \<Rightarrow> int" where
  "rate_limit_resume vs now lag =
     (let timeSinceLastCall = now - lastCallTimestamp vs in
      if timeSinceLastCall < rateLimitDelay vs
      then now + timer_delay (rateLimitDelay vs - timeSinceLastCall) + int lag
      else now)"

text \<open>Lines 96-107: the explicit voice id, else the persona's voice, else a default.\<close>

definition selectVoice :: "jsstring option \<Rightarrow> jsstring option \<Rightarrow> voice_ref" where
  "selectVoice voiceId persona =
     (let resolved = (if truthy (resolveVoiceIdForPersona persona)
                      then resolveVoiceIdForPersona persona else None);
          selectedVoiceId =
            (case voiceId of
               None \<Rightarrow> resolved
             | Some v \<Rightarrow> if v = [] then resolved else Some (VoiceId v))
      in case selectedVoiceId of
           Some v \<Rightarrow> v
         | None \<Rightarrow>
             let isLeonardo =
                   (case persona of
                      None \<Rightarrow> False
                    | Some p \<Rightarrow> includes_str (toLowerCase p) (js ''leonardo''))
             in if isLeonardo then VoiceId (js ''iLVmqjzCGGvqtMCk6vVQ'')
                else VoiceId (js ''RScb7njQ3VwA2nyCsZX4''))"

text \<open>Lines 152-168, for the response that the retry logic ends with.\<close>

definition api_error_reason :: "fetch_response \<Rightarrow> jsstring" where
  "api_error_reason r = js ''api_error_'' @ decimal (resp_status r)"

definition conclude :: "voice_service \<Rightarrow> synth_env \<Rightarrow> jsstring \<Rightarrow> jsstring option \<Rightarrow>
    (int \<times> tts_request) list \<Rightarrow> int \<Rightarrow> fetch_response \<Rightarrow> bool \<Rightarrow> synth_outcome" where
  "conclude vs env text persona calls t response body_read =
     (if \<not> ok response
      then (case (if body_read then resp_text_again response else resp_text response) of
              Inl e \<Rightarrow>
                \<lparr> returned = Inl e, provider_calls = calls, service_after = vs,
                  finished_at = t + int (read_time env) \<rparr>
            | Inr errorText \<Rightarrow>
                \<lparr> returned = Inr (Fallback text persona (api_error_reason response)),
                  provider_calls = calls, service_after = vs,
                  finished_at = t + int (read_time env) \<rparr>)
      else
        let vs' = vs \<lparr> lastCallTimestamp := t \<rparr> in
        (case resp_arrayBuffer response of
           Inl e \<Rightarrow>
             \<lparr> returned = Inl e, provider_calls = calls, service_after = vs',
               finished_at = t + int (read_time env) \<rparr>
         | Inr arrayBuffer \<Rightarrow>
             \<lparr> returned = Inr (Audio arrayBuffer), provider_calls = calls, service_after = vs',
               finished_at = t + int (read_time env) \<rparr>))"

text \<open>The body of the \<open>try\<close> block (lines 29-168).\<close>

definition synthesizeSpeech_try ::
    "voice_service \<Rightarrow> synth_env \<Rightarrow> jsstring \<Rightarrow> jsstring option \<Rightarrow> jsstring option \<Rightarrow> synth_outcome" where
  "synthesizeSpeech_try vs env text persona voiceId =
     (if apiKey vs = []
      then \<lparr> returned = Inr (Fallback text persona (js ''missing_api_key'')),
             provider_calls = [], service_after = vs, finished_at = date_now env \<rparr>
      else
        let t_fire = rate_limit_resume vs (date_now env) (timer_lag env);
            selectedVoiceId = selectVoice voiceId persona;
            request = \<lparr> req_voice = selectedVoiceId, req_key = apiKey vs,
                        req_text = truncatedText text \<rparr>;
            t_response = t_fire + int (latency env 0)
        in case fetch_tts env 0 request of
             Inl e \<Rightarrow>
               \<lparr> returned = Inl e, provider_calls = [(t_fire, request)], service_after = vs,
                 finished_at = t_response \<rparr>
           | Inr response \<Rightarrow>
               if ok response
               then conclude vs env text persona [(t_fire, request)] t_response response False
               else
                 (case resp_text response of
                    Inl e \<Rightarrow>
                      \<lparr> returned = Inl e, provider_calls = [(t_fire, request)],
                        service_after = vs, finished_at = t_response + int (read_time env) \<rparr>
                  | Inr errorBody \<Rightarrow>
                      if includes_str errorBody (js ''quota_exceeded'')
                      then
                        let shortText = take 120 text;
                            retry = request \<lparr> req_text := shortText \<rparr>;
                            t_retry = t_response + int (read_time env);
                            calls = [(t_fire, request), (t_retry, retry)];
                            t_response2 = t_retry + int (latency env 1)
                        in (case fetch_tts env 1 retry of
                              Inl e \<Rightarrow>
                                \<lparr> returned = Inl e, provider_calls = calls,
                                  service_after = vs, finished_at = t_response2 \<rparr>
                            | Inr response2 \<Rightarrow>
                                conclude vs env text persona calls t_response2 response2 False)
                      else
                        conclude vs env text persona [(t_fire, request)]
                          (t_response + int (read_time env)) response True))"

text \<open>Lines 23-173: the \<open>try\<close> block and its \<open>catch\<close>, which returns the fallback.\<close>

definition synthesizeSpeech ::
    "voice_service \<Rightarrow> synth_env \<Rightarrow> jsstring \<Rightarrow> jsstring option \<Rightarrow> jsstring option \<Rightarrow> synth_outcome" where
  "synthesizeSpeech vs env text persona voiceId =
     (let out = synthesizeSpeech_try vs env text persona voiceId in
      case returned out of
        Inl error \<Rightarrow> out \<lparr> returned := Inr (Fallback text persona (js ''exception'')) \<rparr>
      | Inr r \<Rightarrow> out)"


section \<open>voice-service.ts: getVoices and getAllVoices\<close>

text \<open>\<open>xs.map(f)\<close> for a callback that may throw: the first exception ends the loop.\<close>

fun map_throwing :: "('a \<Rightarrow> js_exception + 'b) \<Rightarrow> 'a list \<Rightarrow> js_exception + 'b list" where
  "map_throwing f [] = Inr []"
| "map_throwing f (x # xs) =
     (case f x of
        Inl e \<Rightarrow> Inl e
      | Inr y \<Rightarrow> (case map_throwing f xs of Inl e \<Rightarrow> Inl e | Inr ys \<Rightarrow> Inr (y # ys)))"

record voice_entry =
  voice_id :: "json option"
  voice_name :: "json option"

text \<open>The literal that getVoices returns at lines 178-181, 201-204 and 214-217.\<close>

definition fallback_voices :: "voice_entry list" where
  "fallback_voices =
     [\<lparr> voice_id = Some (JStr (js ''iLVmqjzCGGvqtMCk6vVQ'')),
        voice_name = Some (JStr (js ''Leonardo da Vinci (Fallback)'')) \<rparr>,
      \<lparr> voice_id = Some (JStr (js ''RScb7njQ3VwA2nyCsZX4'')),
        voice_name = Some (JStr (js ''Steve Jobs (Fallback)'')) \<rparr>]"

text \<open>The callback of line 208: \<open>v => ({voice_id: v.voice_id, name: v.name})\<close>.\<close>

definition pick_voice :: "json \<Rightarrow> js_exception + voice_entry" where
  "pick_voice v =
     (case json_prop v (js ''voice_id'') of
        Inl e \<Rightarrow> Inl e
      | Inr i \<Rightarrow>
          (case json_prop v (js ''name'') of
             Inl e \<Rightarrow> Inl e
           | Inr n \<Rightarrow> Inr \<lparr> voice_id = i, voice_name = n \<rparr>))"

text \<open>
  Lines 185-211, the \<open>try\<close> block of getVoices. The request carries the API key as it is,
  also when it is empty. \<open>data.voices.map\<close> throws unless \<open>data.voices\<close> is an array.
\<close>

definition getVoices_try ::
    "voice_service \<Rightarrow> (jsstring \<Rightarrow> js_exception + fetch_response) \<Rightarrow> js_exception + voice_entry list" where
  "getVoices_try vs fetch_voices =
     (case fetch_voices (apiKey vs) of
        Inl e \<Rightarrow> Inl e
      | Inr response \<Rightarrow>
          if \<not> ok response
          then (case resp_text response of
                  Inl e \<Rightarrow> Inl e
                | Inr errorText \<Rightarrow> Inr fallback_voices)
          else
            (case resp_json response of
               Inl e \<Rightarrow> Inl e
             | Inr data \<Rightarrow>
                 (case json_prop data (js ''voices'') of
                    Inl e \<Rightarrow> Inl e
                  | Inr (Some (JArr vs)) \<Rightarrow> map_throwing pick_voice vs
                  | Inr other \<Rightarrow> Inl (TypeError ''data.voices.map is not a function''))))"

definition getVoices ::
    "voice_service \<Rightarrow> (jsstring \<Rightarrow> js_exception + fetch_response) \<Rightarrow> js_exception + voice_entry list" where
  "getVoices vs fetch_voices =
     (if \<not> useElevenLabs vs then Inr fallback_voices
      else case getVoices_try vs fetch_voices of
             Inl error \<Rightarrow> Inr fallback_voices
           | Inr voices \<Rightarrow> Inr voices)"

text \<open>
  Lines 241-245 of getAllVoices: the argument of \<open>console.log\<close>,
  \<open>data.voices?.map(v => ({voice_id: v.voice_id, name: v.name, category: v.category}))\<close>.
  Only its exceptions matter. \<open>undefined\<close> and \<open>null\<close> stop the optional chain.
\<close>

definition log_voice :: "json \<Rightarrow> js_exception + unit" where
  "log_voice v =
     (case json_prop v (js ''voice_id'') of
        Inl e \<Rightarrow> Inl e
      | Inr i \<Rightarrow>
          (case json_prop v (js ''name'') of
             Inl e \<Rightarrow> Inl e
           | Inr n \<Rightarrow>
               (case json_prop v (js ''category'') of
                  Inl e \<Rightarrow> Inl e
                | Inr c \<Rightarrow> Inr ())))"

fun log_voices :: "json option \<Rightarrow> js_exception + unit" where
  "log_voices None = Inr ()"
| "log_voices (Some JNull) = Inr ()"
| "log_voices (Some (JArr vs)) =
     (case map_throwing log_voice vs of Inl e \<Rightarrow> Inl e | Inr us \<Rightarrow> Inr ())"
| "log_voices (Some other) = Inl (TypeError ''data.voices?.map is not a function'')"

text \<open>\<open>data.voices || []\<close>.\<close>

definition or_empty_array :: "json option \<Rightarrow> json" where
  "or_empty_array v = (case v of None \<Rightarrow> JArr [] | Some x \<Rightarrow> if json_truthy v then x else JArr [])"

text \<open>Lines 224-247, the \<open>try\<close> block of getAllVoices, and lines 222-252, the method.\<close>

definition getAllVoices_try ::
    "voice_service \<Rightarrow> (jsstring \<Rightarrow> js_exception + fetch_response) \<Rightarrow> js_exception + json" where
  "getAllVoices_try vs fetch_voices =
     (if apiKey vs = [] then Inr (JArr [])
      else case fetch_voices (apiKey vs) of
             Inl e \<Rightarrow> Inl e
           | Inr response \<Rightarrow>
               if \<not> ok response
               then Inl (JsError (js ''Failed to fetch voices: '' @ decimal (resp_status response)
                                  @ js '' '' @ resp_statusText response))
               else
                 (case resp_json response of
                    Inl e \<Rightarrow> Inl e
                  | Inr data \<Rightarrow>
                      (case json_prop data (js ''voices'') of
                         Inl e \<Rightarrow> Inl e
                       | Inr voices \<Rightarrow>
                           (case log_voices voices of
                              Inl e \<Rightarrow> Inl e
                            | Inr u \<Rightarrow> Inr (or_empty_array voices)))))"

definition getAllVoices ::
    "voice_service \<Rightarrow> (jsstring \<Rightarrow> js_exception + fetch_response) \<Rightarrow> js_exception + json" where
  "getAllVoices vs fetch_voices =
     (case getAllVoices_try vs fetch_voices of
        Inl error \<Rightarrow> Inr (JArr [])
      | Inr voices \<Rightarrow> Inr voices)"

section \<open>HTTP replies\<close>

text \<open>
  What a handler sends: the status, the \<open>Content-Type\<close> it sets (\<open>None\<close> when it leaves
  the choice to Express) and the body.
\<close>

datatype zod_code = invalid_type | too_small | too_big

datatype reply_body =
    SendText jsstring
  | SendJson json
  | SendBytes "byte list"
  | SendInvalid "(jsstring list \<times> zod_code) list"

record http_reply =
  reply_status :: nat
  reply_type :: "jsstring option"
  reply_body :: reply_body

section \<open>routes.ts: POST /api/voice/synthesize\<close>







section \<open>debate-generator.ts\<close>

record debate_turn =
  speaker :: jsstring
  turn_text :: jsstring

record debate_result =
  topic :: jsstring
  turns :: "debate_turn list"
  combinedText :: jsstring
  audioBuffer :: "byte list option"

definition DEFAULT_SPEAKERS :: "jsstring list" where
  "DEFAULT_SPEAKERS = [js ''Albert Einstein'', js ''Steve Jobs'']"

text \<open>
  \<open>craftPerspective\<close> (lines 26-36). The literals are the source's, code unit by code
  unit: the double quotes are 0x22, the dash of the second template is U+2014 and the
  hyphen of the third U+2011.
\<close>

definition einstein_prefix :: jsstring where
  "einstein_prefix =
     js ''From a theoretical and systemic perspective, '' @ [0x22]"

definition einstein_suffix :: jsstring where
  "einstein_suffix =
     [0x22] @ js '' demands that we examine fundamental assumptions, reduce the''
     @ js ''m to first principles, then recompose them into models we ca''
     @ js ''n test. Practical progress emerges when abstraction meets em''
     @ js ''pirical validation.''"

definition jobs_prefix :: jsstring where
  "jobs_prefix =
     js ''If we care about '' @ [0x22]"

definition jobs_suffix :: jsstring where
  "jobs_suffix =
     [0x22] @ js '', we have to start with the user experience and work backwar''
     @ js ''ds to the technology. Focus. Eliminate the noise. What actua''
     @ js ''lly delights or liberates people here? Build that'' @ [0x2014]
     @ js ''relentlessly.''"

definition craftPerspective :: "jsstring \<Rightarrow> jsstring \<Rightarrow> nat \<Rightarrow> jsstring" where
  "craftPerspective spk tpc index =
     (let base = trim tpc in
      if spk = js ''Albert Einstein'' then einstein_prefix @ base @ einstein_suffix
      else if spk = js ''Steve Jobs'' then jobs_prefix @ base @ jobs_suffix
      else spk @ js '' adds viewpoint #'' @ decimal (index + 1)
           @ js '' regarding '' @ [0x22] @ base
           @ [0x22] @ js '' focusing on pragmatic trade'' @ [0x2011]
           @ js ''offs and emergent possibilities.'')"

text \<open>Lines 53-62: one turn per round and speaker, in that order.\<close>

definition round_turns :: "jsstring \<Rightarrow> jsstring list \<Rightarrow> nat \<Rightarrow> debate_turn list" where
  "round_turns tpc speakers rnd =
     map (\<lambda>i. \<lparr> speaker = speakers ! i,
                turn_text = craftPerspective (speakers ! i) tpc (rnd * length speakers + i) \<rparr>)
         [0 ..< length speakers]"

definition make_turns :: "jsstring \<Rightarrow> jsstring list \<Rightarrow> nat \<Rightarrow> debate_turn list" where
  "make_turns tpc speakers maxTurnsPerSpeaker =
     concat (map (round_turns tpc speakers) [0 ..< maxTurnsPerSpeaker])"

text \<open>
  Lines 66-78: the loop over the turns, with the voice service threaded through. The
  \<open>k\<close>-th call of synthesizeSpeech runs in the world \<open>envs k\<close>. A rejected promise (the
  \<open>catch\<close>) and a fallback descriptor (not a Buffer) both leave \<open>buffers\<close> as it is.
\<close>

fun synthesize_turns ::
    "(nat \<Rightarrow> synth_env) \<Rightarrow> nat \<Rightarrow> debate_turn list \<Rightarrow> voice_service \<Rightarrow> byte list list
       \<Rightarrow> byte list list \<times> voice_service" where
  "synthesize_turns envs k [] vs buffers = (buffers, vs)"
| "synthesize_turns envs k (turn # rest) vs buffers =
     (let out = synthesizeSpeech vs (envs k) (turn_text turn) (Some (speaker turn)) None in
      case returned out of
        Inr (Audio audio) \<Rightarrow>
          synthesize_turns envs (Suc k) rest (service_after out) (buffers @ [audio])
      | Inr (Fallback t p reason) \<Rightarrow>
          synthesize_turns envs (Suc k) rest (service_after out) buffers
      | Inl err \<Rightarrow>
          synthesize_turns envs (Suc k) rest (service_after out) buffers)"

text \<open>
  The audio rule in the specification's words, to compare the loop with: the voice
  synthesis client is invoked once per turn, in turn order, each call on the service as
  the previous call left it; a turn succeeds when its call returns audio bytes; the
  successful byte sequences, in turn order, are what gets concatenated.
\<close>

fun spec_turn_results ::
    "(nat \<Rightarrow> synth_env) \<Rightarrow> nat \<Rightarrow> debate_turn list \<Rightarrow> voice_service \<Rightarrow> synth_outcome list" where
  "spec_turn_results envs k [] vs = []"
| "spec_turn_results envs k (turn # rest) vs =
     (let out = synthesizeSpeech vs (envs k) (turn_text turn) (Some (speaker turn)) None
      in out # spec_turn_results envs (Suc k) rest (service_after out))"

definition audio_of :: "synth_outcome \<Rightarrow> byte list list" where
  "audio_of out = (case returned out of Inr (Audio bytes) \<Rightarrow> [bytes] | other \<Rightarrow> [])"

definition spec_successful_audio :: "synth_outcome list \<Rightarrow> byte list list" where
  "spec_successful_audio outs = concat (map audio_of outs)"

text \<open>\<open>xs.join(sep)\<close>.\<close>

fun join :: "jsstring \<Rightarrow> jsstring list \<Rightarrow> jsstring" where
  "join sep [] = []"
| "join sep [x] = x"
| "join sep (x # y # ys) = x @ sep @ join sep (y # ys)"

definition render_turn :: "debate_turn \<Rightarrow> jsstring" where
  "render_turn t = js ''*'' @ speaker t @ js '':* '' @ turn_text t"

text \<open>
  \<open>generateDebate\<close> (lines 45-86). The options are the topic, the speakers (\<open>None\<close>: the
  default pair), \<open>includeAudio\<close> and \<open>maxTurnsPerSpeaker\<close> (a count). The result comes with
  the voice service as the audio loop left it.
\<close>

definition generateDebate ::
    "voice_service \<Rightarrow> (nat \<Rightarrow> synth_env) \<Rightarrow> jsstring \<Rightarrow> jsstring list option \<Rightarrow> bool \<Rightarrow> nat
       \<Rightarrow> debate_result \<times> voice_service" where
  "generateDebate vs envs tpc speakers_opt includeAudio maxTurnsPerSpeaker =
     (let speakers = (case speakers_opt of None \<Rightarrow> DEFAULT_SPEAKERS | Some s \<Rightarrow> s);
          ts = make_turns tpc speakers maxTurnsPerSpeaker;
          (buffers, vs') = (if includeAudio then synthesize_turns envs 0 ts vs [] else ([], vs));
          audio = (if buffers \<noteq> [] then Some (concat buffers) else None)
      in (\<lparr> topic = tpc, turns = ts,
             combinedText = join [0x0A] (map render_turn ts),
             audioBuffer = audio \<rparr>, vs'))"

section \<open>slack-routes.ts: outbound calls and the /debate command\<close>

record slack_config =
  SLACK_SIGNING_SECRET :: jsstring
  SLACK_BOT_TOKEN :: jsstring

text \<open>
  An outbound call to the Slack API: \<open>chat.postMessage\<close> with channel and text, or
  \<open>files.upload\<close> with channel, file name, content and title. The channel is the value
  found in the payload (\<open>None\<close>: undefined).
\<close>

datatype slack_call =
    PostMessage "json option" jsstring
  | UploadFile "json option" jsstring "byte list" jsstring

text \<open>
  \<open>postSlackMessage\<close> (lines 549-562) and \<open>uploadSlackFile\<close> (lines 584-612): nothing
  without a bot token; otherwise one call, whose \<open>fetch\<close> may throw. \<open>slack_fetch\<close> says
  whether it does.
\<close>

definition postSlackMessage ::
    "slack_config \<Rightarrow> (slack_call \<Rightarrow> js_exception option) \<Rightarrow> json option \<Rightarrow> jsstring
       \<Rightarrow> slack_call list \<times> js_exception option" where
  "postSlackMessage cfg slack_fetch channel txt =
     (if SLACK_BOT_TOKEN cfg = [] then ([], None)
      else ([PostMessage channel txt], slack_fetch (PostMessage channel txt)))"

definition uploadSlackFile ::
    "slack_config \<Rightarrow> (slack_call \<Rightarrow> js_exception option) \<Rightarrow> json option \<Rightarrow> jsstring
       \<Rightarrow> byte list \<Rightarrow> jsstring \<Rightarrow> slack_call list \<times> js_exception option" where
  "uploadSlackFile cfg slack_fetch channel filename buffer title =
     (if SLACK_BOT_TOKEN cfg = [] then ([], None)
      else ([UploadFile channel filename buffer (if title = [] then filename else title)],
            slack_fetch (UploadFile channel filename buffer
                           (if title = [] then filename else title))))"

definition decimal_int :: "int \<Rightarrow> jsstring" where
  "decimal_int i = (if i < 0 then js ''-'' @ decimal (nat (- i)) else decimal (nat i))"

text \<open>The literals of lines 861, 866, 875 and 889, code unit by code unit as the file has them.\<close>

definition ask_for_topic :: jsstring where
  "ask_for_topic =
     js ''Please provide a topic, e.g. '' @ [0x60] @ js ''/debate AI ethics'' @ [0x60]"

definition generating_prefix :: jsstring where
  "generating_prefix =
     [0xF8FF, 0xFC, 0xE9, 0x2260] @ js '' Generating debate on '' @ [0x22]"

definition generating_suffix :: jsstring where
  "generating_suffix =
     [0x22] @ js '' between digital twin personas...''"

definition debate_header :: jsstring where
  "debate_header =
     js ''*'' @ [0xF8FF, 0xFC, 0xE9, 0x2260] @ js '' Debate: ''"

definition failed_prefix :: jsstring where
  "failed_prefix =
     [0x201A, 0xF9, 0xE5] @ js '' Failed to generate debate for topic: ''"

text \<open>
  What handling a command does: the reply sent on \<open>res\<close> (\<open>None\<close>: none), the outbound
  Slack calls in order, and whether a promise was left rejected with nobody to catch it.
\<close>

record command_outcome =
  cmd_reply :: "http_reply option"
  cmd_outbound :: "slack_call list"
  cmd_unhandled :: bool

text \<open>
  Lines 870-892, the asynchronous part of \<open>handleDebateCommand\<close>, for the debate that
  \<open>generateDebate\<close> returned: post the text; then upload the audio if there is a buffer
  shorter than 24,000,000 bytes; if either throws, post the failure notice.
\<close>

definition deliver_debate ::
    "slack_config \<Rightarrow> (slack_call \<Rightarrow> js_exception option) \<Rightarrow> int \<Rightarrow> json option \<Rightarrow> jsstring
       \<Rightarrow> debate_result \<Rightarrow> slack_call list \<times> bool" where
  "deliver_debate cfg slack_fetch now channel tpc debate =
     (let (calls1, thrown1) =
            postSlackMessage cfg slack_fetch channel
              (debate_header @ tpc @ js ''*'' @ [0x0A] @ combinedText debate);
          (calls2, thrown2) =
            (if thrown1 \<noteq> None then ([], thrown1)
             else case audioBuffer debate of
                    None \<Rightarrow> ([], None)
                  | Some buffer \<Rightarrow>
                      if length buffer < 24000000
                      then uploadSlackFile cfg slack_fetch channel
                             (js ''debate-'' @ decimal_int now @ js ''.mp3'') buffer
                             (js ''Debate Audio: '' @ tpc)
                      else ([], None))
      in if thrown2 = None then (calls1 @ calls2, False)
         else
           let (calls3, thrown3) =
                 postSlackMessage cfg slack_fetch channel (failed_prefix @ tpc)
           in (calls1 @ calls2 @ calls3, thrown3 \<noteq> None))"

text \<open>
  \<open>handleDebateCommand\<close> (lines 858-893). \<open>payload.text\<close> and \<open>payload.channel_id\<close> are
  read from the parsed body; \<open>(payload.text || "").trim()\<close> throws for a truthy value
  that is not a string. The debate is generated with \<open>includeAudio: false\<close>, the default
  speakers and one round.
\<close>

definition text_or_empty :: "json option \<Rightarrow> js_exception + jsstring" where
  "text_or_empty v =
     (if \<not> json_truthy v then Inr []
      else case v of
             Some (JStr s) \<Rightarrow> Inr (trim s)
           | other \<Rightarrow> Inl (TypeError ''payload.text.trim is not a function''))"

definition handleDebateCommand ::
    "slack_config \<Rightarrow> (slack_call \<Rightarrow> js_exception option) \<Rightarrow> int \<Rightarrow> voice_service
       \<Rightarrow> (nat \<Rightarrow> synth_env) \<Rightarrow> json \<Rightarrow> js_exception + command_outcome" where
  "handleDebateCommand cfg slack_fetch now vs envs payload =
     (case json_prop payload (js ''text'') of
        Inl e \<Rightarrow> Inl e
      | Inr txt \<Rightarrow>
          (case text_or_empty txt of
             Inl e \<Rightarrow> Inl e
           | Inr tpc \<Rightarrow>
               if tpc = []
               then Inr \<lparr> cmd_reply = Some \<lparr> reply_status = 200, reply_type = None,
                                             reply_body = SendText ask_for_topic \<rparr>,
                          cmd_outbound = [], cmd_unhandled = False \<rparr>
               else
                 let (debate, vs') = generateDebate vs envs tpc None False 1;
                     channel = (case json_prop payload (js ''channel_id'') of
                                  Inl e \<Rightarrow> None | Inr c \<Rightarrow> c);
                     (calls, unhandled) = deliver_debate cfg slack_fetch now channel tpc debate
                 in Inr \<lparr> cmd_reply = Some \<lparr> reply_status = 200, reply_type = None,
                                reply_body = SendText (generating_prefix @ tpc
                                                       @ generating_suffix) \<rparr>,
                          cmd_outbound = calls, cmd_unhandled = unhandled \<rparr>))"

section \<open>slack-routes.ts: signature verification\<close>

text \<open>
  \<open>Buffer.from(s)\<close> and \<open>update(s, "utf8")\<close>: the UTF-8 encoding of a string. A surrogate
  pair gives four bytes; a surrogate on its own is replaced by U+FFFD (EF BF BD).
\<close>

definition is_high_surrogate :: "jschar \<Rightarrow> bool" where
  "is_high_surrogate c = (0xD800 \<le> c \<and> c \<le> 0xDBFF)"

definition is_low_surrogate :: "jschar \<Rightarrow> bool" where
  "is_low_surrogate c = (0xDC00 \<le> c \<and> c \<le> 0xDFFF)"

definition utf8_one :: "jschar \<Rightarrow> byte list" where
  "utf8_one c =
     (if c < 0x80 then [ucast c]
      else if c < 0x800 then [0xC0 OR ucast (drop_bit 6 c), 0x80 OR ucast (c AND 0x3F)]
      else [0xE0 OR ucast (drop_bit 12 c), 0x80 OR ucast (drop_bit 6 c AND 0x3F),
            0x80 OR ucast (c AND 0x3F)])"

definition utf8_pair :: "jschar \<Rightarrow> jschar \<Rightarrow> byte list" where
  "utf8_pair hi lo =
     (let cp = (0x10000 :: 32 word) + push_bit 10 (ucast (hi AND 0x3FF)) + ucast (lo AND 0x3FF)
      in [0xF0 OR ucast (drop_bit 18 cp), 0x80 OR ucast (drop_bit 12 cp AND 0x3F),
          0x80 OR ucast (drop_bit 6 cp AND 0x3F), 0x80 OR ucast (cp AND 0x3F)])"

fun utf8_encode :: "jsstring \<Rightarrow> byte list" where
  "utf8_encode [] = []"
| "utf8_encode [c] =
     (if is_high_surrogate c \<or> is_low_surrogate c then [0xEF, 0xBF, 0xBD] else utf8_one c)"
| "utf8_encode (c # d # cs) =
     (if is_high_surrogate c \<and> is_low_surrogate d then utf8_pair c d @ utf8_encode cs
      else if is_high_surrogate c \<or> is_low_surrogate c
      then [0xEF, 0xBF, 0xBD] @ utf8_encode (d # cs)
      else utf8_one c @ utf8_encode (d # cs))"

text \<open>\<open>digest("hex")\<close>: two lower-case hexadecimal digits per byte.\<close>

definition hex_digit :: "byte \<Rightarrow> jschar" where
  "hex_digit n = (if n < 10 then 0x30 + ucast n else 0x57 + ucast n)"

definition to_hex :: "byte list \<Rightarrow> jsstring" where
  "to_hex bs = concat (map (\<lambda>b. [hex_digit (drop_bit 4 b), hex_digit (b AND 0x0F)]) bs)"

text \<open>
  \<open>crypto.timingSafeEqual(a, b)\<close>: a RangeError when the byte lengths differ, else whether
  the bytes are equal.
\<close>

definition timingSafeEqual :: "byte list \<Rightarrow> byte list \<Rightarrow> js_exception + bool" where
  "timingSafeEqual a b =
     (if length a \<noteq> length b
      then Inl (JsError (js ''RangeError: Input buffers must have the same byte length''))
      else Inr (a = b))"

text \<open>
  JavaScript numbers are IEEE 754 binary64 values. A finite one is \<open>Finite m e\<close>, the
  number \<open>m * 2^e\<close>; \<open>Number(timestamp)\<close> yields such a value, an infinity or NaN.
\<close>

datatype jsnum = NaN | Finite int int | PosInfinity | NegInfinity

text \<open>
  Rounding to binary64, to nearest with ties to even. \<open>scale2 k e\<close> is \<open>k * 2^e\<close> for
  \<open>e \<ge> 0\<close> and \<open>k\<close> otherwise, so that a ratio \<open>n * 2^(-q) / d\<close> is written without
  fractions as \<open>scale2 n (-q) / scale2 d q\<close>. \<open>binary_exponent n d\<close> is the \<open>e\<close> with
  \<open>2^e \<le> n / d < 2^(e+1)\<close>; the unit in the last place is \<open>2^(e - 52)\<close>, with
  \<open>e\<close> not below -1022 (subnormal numbers); a result of \<open>2^1024\<close> or more is an infinity.
\<close>

fun log2floor :: "nat \<Rightarrow> nat" where
  "log2floor n = (if n < 2 then 0 else Suc (log2floor (n div 2)))"

declare log2floor.simps [simp del]

definition scale2 :: "int \<Rightarrow> int \<Rightarrow> int" where
  "scale2 k e = (if 0 \<le> e then k * 2 ^ nat e else k)"

definition binary_exponent :: "int \<Rightarrow> int \<Rightarrow> int" where
  "binary_exponent n d =
     (let g = int (log2floor (nat n)) - int (log2floor (nat d))
      in if scale2 d g \<le> scale2 n (- g) then g else g - 1)"

definition round_half_even :: "int \<Rightarrow> int \<Rightarrow> int" where
  "round_half_even n d =
     (let f = n div d; r = n mod d
      in if 2 * r < d then f
         else if d < 2 * r then f + 1
         else if even f then f else f + 1)"

text \<open>The double nearest to \<open>n / d\<close> (both positive), with the sign given.\<close>

definition round_ratio :: "bool \<Rightarrow> int \<Rightarrow> int \<Rightarrow> jsnum" where
  "round_ratio negative n d =
     (let e = max (binary_exponent n d) (- 1022);
          q = e - 52;
          m = round_half_even (scale2 n (- q)) (scale2 d q)
      in if 2 ^ 1024 \<le> scale2 m q then (if negative then NegInfinity else PosInfinity)
         else Finite (if negative then - m else m) q)"

text \<open>The double nearest to \<open>k * 2^e\<close>.\<close>

definition round_scaled :: "int \<Rightarrow> int \<Rightarrow> jsnum" where
  "round_scaled k e =
     (if k = 0 then Finite 0 0
      else round_ratio (k < 0) (scale2 \<bar>k\<bar> e) (scale2 1 (- e)))"

text \<open>
  \<open>a / b\<close> for two integers that are doubles themselves (\<open>Date.now()\<close> and 1000),
  \<open>x - y\<close>, \<open>Math.abs(x)\<close> and \<open>x > k\<close> for an integer \<open>k\<close>. Every comparison with
  NaN is false.
\<close>

definition js_divide_int :: "int \<Rightarrow> int \<Rightarrow> jsnum" where
  "js_divide_int a b =
     (if a = 0 then Finite 0 0 else round_ratio (a < 0) \<bar>a\<bar> b)"

fun js_minus :: "jsnum \<Rightarrow> jsnum \<Rightarrow> jsnum" where
  "js_minus (Finite m1 e1) (Finite m2 e2) =
     (let e = min e1 e2 in round_scaled (scale2 m1 (e1 - e) - scale2 m2 (e2 - e)) e)"
| "js_minus (Finite m e) PosInfinity = NegInfinity"
| "js_minus (Finite m e) NegInfinity = PosInfinity"
| "js_minus PosInfinity (Finite m e) = PosInfinity"
| "js_minus NegInfinity (Finite m e) = NegInfinity"
| "js_minus PosInfinity NegInfinity = PosInfinity"
| "js_minus NegInfinity PosInfinity = NegInfinity"
| "js_minus a b = NaN"

fun js_abs :: "jsnum \<Rightarrow> jsnum" where
  "js_abs (Finite m e) = Finite \<bar>m\<bar> e"
| "js_abs NegInfinity = PosInfinity"
| "js_abs a = a"

fun js_greater_int :: "jsnum \<Rightarrow> int \<Rightarrow> bool" where
  "js_greater_int (Finite m e) k = (scale2 k (- e) < scale2 m e)"
| "js_greater_int PosInfinity k = True"
| "js_greater_int a k = False"

text \<open>
  Line 538: \<open>Math.abs(Date.now() / 1000 - Number(timestamp)) > 60 * 5\<close>, with the
  division and the subtraction each rounded to a double.
\<close>

definition outside_window :: "int \<Rightarrow> jsnum \<Rightarrow> bool" where
  "outside_window now n =
     js_greater_int (js_abs (js_minus (js_divide_int now 1000) n)) (60 * 5)"

text \<open>
  For comparison, the test as the specification words it, over the rationals: the number
  \<open>m * 2 ^ e\<close> is more than five minutes away from \<open>now / 1000\<close>, with no rounding.
\<close>

definition spec_outside_window :: "int \<Rightarrow> int \<Rightarrow> int \<Rightarrow> bool" where
  "spec_outside_window now m e =
     (60 * 5 * 1000 * scale2 1 (- e) < \<bar>now * scale2 1 (- e) - 1000 * scale2 m e\<bar>)"

text \<open>
  What the request handlers take from the platform: HMAC-SHA256 (key bytes, message
  bytes, digest bytes), \<open>Number\<close> on strings, \<open>JSON.parse\<close> (of a value, which it first
  converts to a string), the clock, whether the \<open>fetch\<close> of an outbound Slack call throws,
  the voice service and its worlds.
\<close>

record slack_env =
  hmac_sha256 :: "byte list \<Rightarrow> byte list \<Rightarrow> byte list"
  to_number :: "jsstring \<Rightarrow> jsnum"
  JSON_parse :: "json \<Rightarrow> js_exception + json"
  clock :: int
  slack_fetch :: "slack_call \<Rightarrow> js_exception option"
  env_service :: voice_service
  env_synth :: "nat \<Rightarrow> synth_env"

definition expected_signature :: "slack_config \<Rightarrow> slack_env \<Rightarrow> jsstring option \<Rightarrow> jsstring \<Rightarrow> jsstring" where
  "expected_signature cfg env rawBody ts =
     (let sigBase = js ''v0:'' @ ts @ js '':''
                    @ (case rawBody of None \<Rightarrow> js ''undefined'' | Some raw \<Rightarrow> raw);
          hmac = to_hex (hmac_sha256 env (utf8_encode (SLACK_SIGNING_SECRET cfg))
                                      (utf8_encode sigBase))
      in js ''v0='' @ hmac)"

text \<open>\<open>verifySlackSignature\<close> (lines 531-547).\<close>

definition verifySlackSignature ::
    "slack_config \<Rightarrow> slack_env \<Rightarrow> jsstring option \<Rightarrow> jsstring option \<Rightarrow> jsstring option
       \<Rightarrow> js_exception + bool" where
  "verifySlackSignature cfg env rawBody timestamp signature =
     (case (timestamp, signature) of
        (Some ts, Some sg) \<Rightarrow>
          if SLACK_SIGNING_SECRET cfg = [] \<or> ts = [] \<or> sg = [] then Inr False
          else if outside_window (clock env) (to_number env ts) then Inr False
          else timingSafeEqual (utf8_encode (expected_signature cfg env rawBody ts))
                               (utf8_encode sg)
      | other \<Rightarrow> Inr False)"

section \<open>slack-routes.ts: the routes\<close>

text \<open>
  The handlers that are not modelled further are recorded when a route calls them, with
  the argument they get.
\<close>

datatype handler_call =
    HandleSlackEvent json
  | HandleInteractivePayload json
  | HandleChatCommand json
  | HandlePersonasCommand json
  | HandleDebateCommand json

text \<open>
  What a route does with a request: the reply it sends itself (\<open>None\<close> when it leaves the
  reply to the handler it calls), the handlers it calls, and the outbound Slack calls made.
\<close>

record route_outcome =
  route_reply :: "http_reply option"
  handlers_run :: "handler_call list"
  outbound :: "slack_call list"

definition reply_with :: "nat \<Rightarrow> jsstring option \<Rightarrow> reply_body \<Rightarrow> route_outcome" where
  "reply_with st ty b =
     \<lparr> route_reply = Some \<lparr> reply_status = st, reply_type = ty, reply_body = b \<rparr>,
       handlers_run = [], outbound = [] \<rparr>"

text \<open>
  The handler of \<open>POST /slack\<close> (lines 1154-1186). \<open>req.body || {}\<close> is destructured: a
  falsy body and every body that is not an object give three \<open>undefined\<close>.
\<close>

definition body_field :: "json option \<Rightarrow> jsstring \<Rightarrow> json option" where
  "body_field body k =
     (if \<not> json_truthy body then None
      else case body of Some (JObj kvs) \<Rightarrow> map_of kvs k | other \<Rightarrow> None)"

definition slack_root :: "json option \<Rightarrow> route_outcome" where
  "slack_root body =
     (let ty = body_field body (js ''type'');
          challenge = body_field body (js ''challenge'');
          event = body_field body (js ''event'')
      in if ty = Some (JStr (js ''url_verification''))
         then (case challenge of
                 Some (JStr c) \<Rightarrow>
                   if length c > 0
                   then reply_with 200 (Some (js ''text/plain'')) (SendText c)
                   else reply_with 400 (Some (js ''text/plain'')) (SendText (js ''missing_challenge''))
               | other \<Rightarrow>
                   reply_with 400 (Some (js ''text/plain'')) (SendText (js ''missing_challenge'')))
         else if ty = Some (JStr (js ''event_callback'')) \<and> json_truthy event
         then (case event of
                 Some ev \<Rightarrow>
                   (reply_with 200 None (SendText (js ''OK'')))
                     \<lparr> handlers_run := [HandleSlackEvent ev] \<rparr>
               | None \<Rightarrow> reply_with 200 None (SendText (js ''OK'')))
         else reply_with 200 None (SendText (js ''OK'')))"

text \<open>The help text of lines 1274-1279, code unit by code unit as the file has it.\<close>

definition help_text :: jsstring where
  "help_text =
     [0xF8FF, 0xFC, 0xA7, 0xF1] @ js '' *DigitalTwin Bot Commands:*''
     @ [0xA, 0x201A, 0xC4, 0xA2] @ js '' '' @ [0x60] @ js ''/chat [message]'' @ [0x60]
     @ js '' - Chat with a digital twin persona'' @ [0xA, 0x201A, 0xC4, 0xA2] @ js '' ''
     @ [0x60] @ js ''/personas'' @ [0x60] @ js '' - See all available personas''
     @ [0xA, 0x201A, 0xC4, 0xA2] @ js '' '' @ [0x60] @ js ''/debate [topic]'' @ [0x60]
     @ js '' - Generate a debate between personas'' @ [0xA] @ js ''          '' @ [0xA]
     @ js ''Use '' @ [0x60] @ js ''/chat'' @ [0x60] @ js '' to start a conversation!''"

text \<open>
  Lines 1223-1233: a body that is missing or has no keys is replaced by the parsed raw
  body when the content type matches \<open>/application\/json/i\<close> and the raw body is not
  empty; a parse error is ignored.
\<close>

definition no_keys :: "json option \<Rightarrow> bool" where
  "no_keys body =
     (\<not> json_truthy body \<or>
      (case body of
         Some (JObj kvs) \<Rightarrow> kvs = []
       | Some (JArr xs) \<Rightarrow> xs = []
       | Some (JStr s) \<Rightarrow> s = []
       | other \<Rightarrow> True))"

definition reparsed_body :: "slack_env \<Rightarrow> jsstring option \<Rightarrow> jsstring option \<Rightarrow> json option \<Rightarrow> json option" where
  "reparsed_body env content_type rawBody body =
     (if no_keys body
      then (let ct = (case content_type of None \<Rightarrow> [] | Some c \<Rightarrow> c) in
            case rawBody of
              None \<Rightarrow> body
            | Some raw \<Rightarrow>
                if includes_str (toLowerCase ct) (js ''application/json'') \<and> raw \<noteq> []
                then (case JSON_parse env (JStr raw) of Inr v \<Rightarrow> Some v | Inl e \<Rightarrow> body)
                else body)
      else body)"

record webhook_request =
  req_rawBody :: "jsstring option"
  req_timestamp :: "jsstring option"
  req_signature :: "jsstring option"
  req_content_type :: "jsstring option"
  req_body :: "json option"

text \<open>
  Lines 1235-1280, what the route does once the signature is accepted; \<open>Inl\<close> is an
  exception, which the \<open>catch\<close> of the route turns into the 500 reply.
\<close>

definition dispatch_command :: "slack_config \<Rightarrow> slack_env \<Rightarrow> json \<Rightarrow> js_exception + route_outcome" where
  "dispatch_command cfg env payload =
     (let command = (case json_prop payload (js ''command'') of Inl e \<Rightarrow> None | Inr c \<Rightarrow> c)
      in if command = Some (JStr (js ''/chat''))
         then Inr \<lparr> route_reply = None, handlers_run = [HandleChatCommand payload],
                    outbound = [] \<rparr>
         else if command = Some (JStr (js ''/personas''))
         then Inr \<lparr> route_reply = None, handlers_run = [HandlePersonasCommand payload],
                    outbound = [] \<rparr>
         else if command = Some (JStr (js ''/debate''))
         then (case handleDebateCommand cfg (slack_fetch env) (clock env)
                      (env_service env) (env_synth env) payload of
                 Inl e \<Rightarrow> Inl e
               | Inr out \<Rightarrow>
                   Inr \<lparr> route_reply = cmd_reply out,
                         handlers_run = [HandleDebateCommand payload],
                         outbound = cmd_outbound out \<rparr>)
         else Inr (reply_with 200 None (SendText help_text)))"

definition dispatch_verified :: "slack_config \<Rightarrow> slack_env \<Rightarrow> webhook_request \<Rightarrow> js_exception + route_outcome" where
  "dispatch_verified cfg env req =
     (let b = reparsed_body env (req_content_type req) (req_rawBody req) (req_body req) in
      if json_truthy b \<and> body_field b (js ''type'') = Some (JStr (js ''url_verification''))
      then (case body_field b (js ''challenge'') of
              Some (JStr c) \<Rightarrow> Inr (reply_with 200 (Some (js ''text/plain'')) (SendText c))
            | other \<Rightarrow>
                Inr (reply_with 400 None
                       (SendJson (JObj [(js ''error'', JStr (js ''missing_challenge''))]))))
      else
        (case b of
           None \<Rightarrow> Inl (TypeError ''Cannot read properties of undefined'')
         | Some v \<Rightarrow>
             (case json_prop v (js ''payload'') of
                Inl e \<Rightarrow> Inl e
              | Inr None \<Rightarrow> dispatch_command cfg env v
              | Inr (Some p) \<Rightarrow>
                  if json_truthy (Some p)
                  then (case JSON_parse env p of
                          Inl e \<Rightarrow> Inl e
                        | Inr interactivePayload \<Rightarrow>
                            Inr \<lparr> route_reply = None,
                                  handlers_run = [HandleInteractivePayload interactivePayload],
                                  outbound = [] \<rparr>)
                  else dispatch_command cfg env v)))"

text \<open>The handler of \<open>POST /slack/webhook\<close> (lines 1213-1286).\<close>

definition slack_webhook :: "slack_config \<Rightarrow> slack_env \<Rightarrow> webhook_request \<Rightarrow> route_outcome" where
  "slack_webhook cfg env req =
     (case verifySlackSignature cfg env (req_rawBody req) (req_timestamp req)
             (req_signature req) of
        Inl error \<Rightarrow> reply_with 500 None (SendText (js ''Internal error''))
      | Inr False \<Rightarrow> reply_with 401 None (SendText (js ''Invalid signature''))
      | Inr True \<Rightarrow>
          (case dispatch_verified cfg env req of
             Inl error \<Rightarrow> reply_with 500 None (SendText (js ''Internal error''))
           | Inr out \<Rightarrow> out))"

text \<open>
  \<open>registerSlackRoutes\<close> (lines 1149-1290): \<open>/slack\<close> is registered always, the router
  with \<open>/slack/webhook\<close> only when a signing secret is configured. A request for a route
  that is not registered is not answered by this module (\<open>None\<close>).
\<close>

datatype slack_route = SlackRoot | SlackWebhook

definition registerSlackRoutes :: "slack_config \<Rightarrow> slack_route list" where
  "registerSlackRoutes cfg =
     SlackRoot # (if SLACK_SIGNING_SECRET cfg = [] then [] else [SlackWebhook])"

definition post_slack :: "slack_config \<Rightarrow> json option \<Rightarrow> route_outcome option" where
  "post_slack cfg b =
     (if SlackRoot \<in> set (registerSlackRoutes cfg) then Some (slack_root b) else None)"

definition post_slack_webhook :: "slack_config \<Rightarrow> slack_env \<Rightarrow> webhook_request \<Rightarrow> route_outcome option" where
  "post_slack_webhook cfg env req =
     (if SlackWebhook \<in> set (registerSlackRoutes cfg) then Some (slack_webhook cfg env req)
      else None)"

section \<open>Scripted environments\<close>

text \<open>
  Concrete worlds for running the model: a response with a given status and body, which
  behaves as the Fetch standard says (the body can be read once), and an environment in
  which every request takes 200 ms, reading a body takes 1 ms and timers fire on time.
\<close>

definition scripted_response :: "nat \<Rightarrow> jsstring \<Rightarrow> byte list \<Rightarrow> fetch_response" where
  "scripted_response st body bytes =
     \<lparr> resp_status = st, resp_statusText = [],
       resp_text = Inr body,
       resp_text_again = Inl (TypeError ''Body is unusable''),
       resp_arrayBuffer = Inr bytes,
       resp_json = Inl (JsError (js ''SyntaxError'')) \<rparr>"

definition scripted_env :: "int \<Rightarrow> (nat \<Rightarrow> fetch_response) \<Rightarrow> synth_env" where
  "scripted_env now responses =
     \<lparr> date_now = now, timer_lag = 0, latency = (\<lambda>n. 200), read_time = 1,
       fetch_tts = (\<lambda>n request. Inr (responses n)) \<rparr>"


definition fetch_voices_503 :: "jsstring \<Rightarrow> js_exception + fetch_response" where
  "fetch_voices_503 key = Inr (scripted_response 503 (js ''unavailable'') [])"


definition keyed_service :: voice_service where
  "keyed_service = new_VoiceService (Some (js ''xi-key''))"

definition unkeyed_service :: voice_service where
  "unkeyed_service = new_VoiceService None"

definition fixed_env :: slack_env where
  "fixed_env =
     \<lparr> hmac_sha256 = (\<lambda>key msg. replicate 32 0),
       to_number = (\<lambda>s. Finite 1700000000 0),
       JSON_parse = (\<lambda>v. Inl (JsError (js ''SyntaxError''))),
       clock = 1700000000000,
       slack_fetch = (\<lambda>c. None),
       env_service = keyed_service,
       env_synth = (\<lambda>k. scripted_env 1700000000000 (\<lambda>n. scripted_response 200 [] [1, 2, 3])) \<rparr>"

definition debate_request :: "jsstring option \<Rightarrow> webhook_request" where
  "debate_request sg =
     \<lparr> req_rawBody = Some (js ''command=%2Fdebate&text=AI+ethics&channel_id=C1''),
       req_timestamp = Some (js ''1700000000''),
       req_signature = sg,
       req_content_type = Some (js ''application/x-www-form-urlencoded''),
       req_body = Some (JObj [(js ''command'', JStr (js ''/debate'')),
                              (js ''text'', JStr (js ''AI ethics'')),
                              (js ''channel_id'', JStr (js ''C1''))]) \<rparr>"

text \<open>
  Ten minutes after the timestamp of \<open>debate_request\<close>; and 300 s and 72.5 ns after a
  timestamp whose decimal expansion is exactly the double 3565158400002097 * 2^-21, so
  that \<open>Number\<close> does not round it.
\<close>

definition late_env :: slack_env where
  "late_env = fixed_env \<lparr> clock := 1700000600000 \<rparr>"

definition boundary_env :: slack_env where
  "boundary_env =
     fixed_env \<lparr> to_number := (\<lambda>s. if s = js ''1700000000.000999927520751953125''
                                     then Finite 3565158400002097 (- 21) else NaN),
                 clock := 1700000300001 \<rparr>"

definition boundary_request :: webhook_request where
  "boundary_request =
     (debate_request (Some (js ''v0='' @ replicate 64 0x30)))
       \<lparr> req_timestamp := Some (js ''1700000000.000999927520751953125'') \<rparr>"

definition secret_only :: slack_config where
  "secret_only = \<lparr> SLACK_SIGNING_SECRET = js ''shhh'', SLACK_BOT_TOKEN = [] \<rparr>"

definition token_only :: slack_config where
  "token_only = \<lparr> SLACK_SIGNING_SECRET = [], SLACK_BOT_TOKEN = js ''xoxb-1'' \<rparr>"


definition audio_debate :: debate_result where
  "audio_debate = \<lparr> topic = js ''AI ethics'', turns = [], combinedText = [],
                     audioBuffer = Some [1, 2, 3] \<rparr>"

text \<open>The first turn's request fails with HTTP 500, every later turn gets audio.\<close>

definition first_turn_fails :: "nat \<Rightarrow> synth_env" where
  "first_turn_fails k =
     scripted_env (1700000000000 + 5000 * int k)
       (\<lambda>n. if k = 0 then scripted_response 500 (js ''server error'') []
            else scripted_response 200 [] [4, 5])"

definition both_configured :: slack_config where
  "both_configured = \<lparr> SLACK_SIGNING_SECRET = js ''shhh'', SLACK_BOT_TOKEN = js ''xoxb-1'' \<rparr>"

definition debate_payload :: json where
  "debate_payload = JObj [(js ''command'', JStr (js ''/debate'')),
                          (js ''text'', JStr (js ''AI ethics'')),
                          (js ''channel_id'', JStr (js ''C1''))]"

section \<open>Properties\<close>

subsection \<open>String literals\<close>

lemma of_char_word16: "(of_char c :: jschar) = word_of_nat (of_char c)"
  by (simp add: of_nat_of_char)

lemma of_char_word16_inject: "((of_char c :: jschar) = of_char d) = (c = d)"
proof
  assume h: "(of_char c :: jschar) = of_char d"
  have lt: "(of_char x :: nat) < 2 ^ 16" for x
  proof -
    have "(of_char x :: nat) mod 256 < 256" by (rule mod_less_divisor) simp
    then have "(of_char x :: nat) < 256" by (simp only: of_char_mod_256)
    also have "(256 :: nat) < 2 ^ 16" by simp
    finally show ?thesis .
  qed
  note c = lt [of c] and d = lt [of d]
  from h have "unat (word_of_nat (of_char c) :: jschar) = unat (word_of_nat (of_char d) :: jschar)"
    by (simp add: of_nat_of_char)
  then have "(of_char c :: nat) = of_char d"
    using c d by (simp add: unat_of_nat take_bit_nat_eq_self)
  then show "c = d" by simp
qed simp

lemma js_inject: "(js s = js t) = (s = t)"
  unfolding js_def by (rule inj_map_eq_map) (simp add: inj_on_def of_char_word16_inject)

lemma js_length: "length (js s) = length s" by (simp add: js_def)

lemma js_Nil: "js [] = []" by (simp add: js_def)
lemma js_eq_Nil: "(js s = []) = (s = [])" by (simp add: js_def)

lemma toLowerCase_keys:
  "toLowerCase (js ''Leonardo da Vinci'') = js ''leonardo da vinci''"
  "toLowerCase (js ''Steve Jobs'') = js ''steve jobs''"
  "toLowerCase (js ''Albert Einstein'') = js ''albert einstein''"
  "toLowerCase (js ''Elon Musk'') = js ''elon musk''"
  "toLowerCase (js ''Walt Disney'') = js ''walt disney''"
  "toLowerCase (js ''Emad Mostaque'') = js ''emad mostaque''"
  "toLowerCase (js ''Fei-Fei Li'') = js ''fei-fei li''"
  by (simp_all add: toLowerCase_def lower_unit_def js_def)

lemma toLowerCase_aliases:
  "toLowerCase (js ''fei-fei li'') = js ''fei-fei li''"
  "toLowerCase (js ''fei fei li'') = js ''fei fei li''"
  "toLowerCase (js ''feifei li'') = js ''feifei li''"
  "toLowerCase (js ''fi fi lee'') = js ''fi fi lee''"
  "toLowerCase (js ''fei fei lee'') = js ''fei fei lee''"
  "toLowerCase (js ''fei-fei lee'') = js ''fei-fei lee''"
  "toLowerCase (js ''fifi li'') = js ''fifi li''"
  "toLowerCase (js ''fei fei le'') = js ''fei fei le''"
  "toLowerCase (js ''fei-fei le'') = js ''fei-fei le''"
  "toLowerCase (js ''fe fe li'') = js ''fe fe li''"
  "toLowerCase (js ''fe fe le'') = js ''fe fe le''"
  "toLowerCase (js ''fi fi li'') = js ''fi fi li''"
  by (simp_all add: toLowerCase_def lower_unit_def js_def)

lemma trim_aliases:
  "trim (js ''fei fei li'') = js ''fei fei li''"
  "trim (js ''fei-fei li'') = js ''fei-fei li''"
  "trim (js ''feifei li'') = js ''feifei li''"
  "trim (js ''fi fi lee'') = js ''fi fi lee''"
  "trim (js ''fei fei lee'') = js ''fei fei lee''"
  "trim (js ''fei-fei lee'') = js ''fei-fei lee''"
  "trim (js ''fifi li'') = js ''fifi li''"
  "trim (js ''fei fei le'') = js ''fei fei le''"
  "trim (js ''fei-fei le'') = js ''fei-fei le''"
  "trim (js ''fe fe li'') = js ''fe fe li''"
  "trim (js ''fe fe le'') = js ''fe fe le''"
  "trim (js ''fi fi li'') = js ''fi fi li''"
  by (simp_all add: trim_def is_white_space_def js_def)

subsection \<open>Persona aliases\<close>

lemma resolve_canonical_fei_fei_li:
  "resolveVoiceIdForPersona (Some (js ''Fei-Fei Li'')) = Some (VoiceId (js ''JL6vl3xyRi3Ly7WoywNO''))"
  by (simp add: resolveVoiceIdForPersona_def get_property_def personaVoiceMap_def js_inject js_eq_Nil)

lemma resolve_alias_fei_fei_li:
  "\<forall>a \<in> set (snd (hd personaAliases)).
     resolveVoiceIdForPersona (Some a) = Some (VoiceId (js ''JL6vl3xyRi3Ly7WoywNO''))"
  by (simp add: resolveVoiceIdForPersona_def get_property_def personaVoiceMap_def
        personaAliases_def object_prototype_keys_def toLowerCase_keys toLowerCase_aliases
        trim_aliases js_inject js_eq_Nil Let_def)

text \<open>
  C8. Every name variant listed in the alias table resolves to a voice id, the one that
  the voice map gives the canonical name it is listed under, and the canonical name
  resolves to that id too; in particular "fi fi lee" and "Fei-Fei Li" both resolve to
  JL6vl3xyRi3Ly7WoywNO.
\<close>

theorem alias_resolves_like_canonical:
  "(\<forall>(canonical, aliases) \<in> set personaAliases. \<forall>a \<in> set aliases.
      \<exists>v. map_of personaVoiceMap canonical = Some v \<and> v \<noteq> []
          \<and> resolveVoiceIdForPersona (Some canonical) = Some (VoiceId v)
          \<and> resolveVoiceIdForPersona (Some a) = Some (VoiceId v))
   \<and> resolveVoiceIdForPersona (Some (js ''fi fi lee''))
       = Some (VoiceId (js ''JL6vl3xyRi3Ly7WoywNO''))
   \<and> resolveVoiceIdForPersona (Some (js ''Fei-Fei Li''))
       = Some (VoiceId (js ''JL6vl3xyRi3Ly7WoywNO''))"
proof -
  have single: "personaAliases = [(js ''Fei-Fei Li'', snd (hd personaAliases))]"
    by (simp add: personaAliases_def)
  have mem: "js ''fi fi lee'' \<in> set (snd (hd personaAliases))"
    by (simp add: personaAliases_def js_inject)
  have own: "map_of personaVoiceMap (js ''Fei-Fei Li'') = Some (js ''JL6vl3xyRi3Ly7WoywNO'')"
    by (simp add: personaVoiceMap_def js_inject)
  have nonempty: "js ''JL6vl3xyRi3Ly7WoywNO'' \<noteq> []"
    by (simp add: js_eq_Nil)
  have "\<forall>(canonical, aliases) \<in> set [(js ''Fei-Fei Li'', snd (hd personaAliases))].
      \<forall>a \<in> set aliases.
      \<exists>v. map_of personaVoiceMap canonical = Some v \<and> v \<noteq> []
          \<and> resolveVoiceIdForPersona (Some canonical) = Some (VoiceId v)
          \<and> resolveVoiceIdForPersona (Some a) = Some (VoiceId v)"
    using resolve_alias_fei_fei_li own nonempty
    by (simp add: resolve_canonical_fei_fei_li)
  then have all: "\<forall>(canonical, aliases) \<in> set personaAliases. \<forall>a \<in> set aliases.
      \<exists>v. map_of personaVoiceMap canonical = Some v \<and> v \<noteq> []
          \<and> resolveVoiceIdForPersona (Some canonical) = Some (VoiceId v)
          \<and> resolveVoiceIdForPersona (Some a) = Some (VoiceId v)"
    using single by simp
  have fifi: "resolveVoiceIdForPersona (Some (js ''fi fi lee''))
       = Some (VoiceId (js ''JL6vl3xyRi3Ly7WoywNO''))"
    using resolve_alias_fei_fei_li mem by blast
  from all fifi resolve_canonical_fei_fei_li show ?thesis by blast
qed

theorem alias_resolves_like_canonical_witness:
  "(js ''Fei-Fei Li'', snd (hd personaAliases)) \<in> set personaAliases
   \<and> js ''fi fi lee'' \<in> set (snd (hd personaAliases))
   \<and> map_of personaVoiceMap (js ''Fei-Fei Li'') = Some (js ''JL6vl3xyRi3Ly7WoywNO'')
   \<and> resolveVoiceIdForPersona (Some (js ''fi fi lee''))
       = Some (VoiceId (js ''JL6vl3xyRi3Ly7WoywNO''))
   \<and> resolveVoiceIdForPersona (Some (js ''Fei-Fei Li''))
       = Some (VoiceId (js ''JL6vl3xyRi3Ly7WoywNO''))"
proof -
  have m1: "(js ''Fei-Fei Li'', snd (hd personaAliases)) \<in> set personaAliases"
    by (simp add: personaAliases_def)
  have m2: "js ''fi fi lee'' \<in> set (snd (hd personaAliases))"
    by (simp add: personaAliases_def js_inject)
  have own: "map_of personaVoiceMap (js ''Fei-Fei Li'') = Some (js ''JL6vl3xyRi3Ly7WoywNO'')"
    by (simp add: personaVoiceMap_def js_inject)
  from alias_resolves_like_canonical [THEN conjunct1] m1 m2
  obtain v where "map_of personaVoiceMap (js ''Fei-Fei Li'') = Some v"
    and "resolveVoiceIdForPersona (Some (js ''Fei-Fei Li'')) = Some (VoiceId v)"
    and "resolveVoiceIdForPersona (Some (js ''fi fi lee'')) = Some (VoiceId v)"
    by blast
  with own m1 m2 show ?thesis by simp
qed

subsection \<open>synthesizeSpeech: result shapes\<close>

lemma conclude_calls:
  "provider_calls (conclude vs env text persona calls t response b) = calls"
  by (simp add: conclude_def Let_def split: sum.splits)

lemma synth_try_shape:
  "(\<exists>r. returned (synthesizeSpeech_try vs env text persona voiceId) = Inr r \<and>
        ((\<exists>bytes. r = Audio bytes)
         \<or> r = Fallback text persona (js ''missing_api_key'')
         \<or> (\<exists>st. r = Fallback text persona (js ''api_error_'' @ decimal st))))
   \<or> (\<exists>e. returned (synthesizeSpeech_try vs env text persona voiceId) = Inl e)"
  by (auto simp: synthesizeSpeech_try_def conclude_def api_error_reason_def Let_def
           split: sum.splits)

lemma synth_fields:
  "provider_calls (synthesizeSpeech vs env text persona voiceId)
     = provider_calls (synthesizeSpeech_try vs env text persona voiceId)"
  "service_after (synthesizeSpeech vs env text persona voiceId)
     = service_after (synthesizeSpeech_try vs env text persona voiceId)"
  "finished_at (synthesizeSpeech vs env text persona voiceId)
     = finished_at (synthesizeSpeech_try vs env text persona voiceId)"
  by (simp_all add: synthesizeSpeech_def Let_def split: sum.splits)

lemma synth_returned:
  "returned (synthesizeSpeech vs env text persona voiceId) =
     (case returned (synthesizeSpeech_try vs env text persona voiceId) of
        Inl e \<Rightarrow> Inr (Fallback text persona (js ''exception''))
      | Inr r \<Rightarrow> Inr r)"
  by (simp add: synthesizeSpeech_def Let_def split: sum.splits)

lemma synth_try_no_key:
  "apiKey vs = [] \<Longrightarrow>
   synthesizeSpeech_try vs env text persona voiceId =
     \<lparr> returned = Inr (Fallback text persona (js ''missing_api_key'')),
       provider_calls = [], service_after = vs, finished_at = date_now env \<rparr>"
  by (simp add: synthesizeSpeech_try_def)

text \<open>
  C3. Whatever the input and whatever the provider does (any status and body, or a thrown
  exception at any await), synthesizeSpeech fulfils its promise: with audio bytes, or with
  a fallback descriptor carrying the input text and persona and one of the reasons
  missing_api_key, api_error_<status>, exception. Without an API key the result is the
  missing_api_key fallback and no request is made.
\<close>

theorem synthesizeSpeech_total:
  "\<exists>r. returned (synthesizeSpeech vs env text persona voiceId) = Inr r
     \<and> ((\<exists>bytes. r = Audio bytes)
        \<or> (\<exists>reason. r = Fallback text persona reason
             \<and> (reason = js ''missing_api_key''
                \<or> (\<exists>st. reason = js ''api_error_'' @ decimal st)
                \<or> reason = js ''exception'')))
     \<and> (apiKey vs = [] \<longrightarrow>
          r = Fallback text persona (js ''missing_api_key'')
          \<and> provider_calls (synthesizeSpeech vs env text persona voiceId) = [])"
proof (cases "apiKey vs = []")
  case True
  then show ?thesis
    by (simp add: synth_returned synth_fields synth_try_no_key)
next
  case False
  with synth_try_shape [of vs env "text" persona voiceId] show ?thesis
    by (auto simp: synth_returned)
qed

theorem synthesizeSpeech_total_witness:
  "apiKey unkeyed_service = []
   \<and> returned (synthesizeSpeech unkeyed_service
                 (scripted_env 1700000000000 (\<lambda>n. scripted_response 200 [] [1, 2, 3]))
                 (js ''hello'') (Some (js ''Steve Jobs'')) None)
       = Inr (Fallback (js ''hello'') (Some (js ''Steve Jobs'')) (js ''missing_api_key''))
   \<and> provider_calls (synthesizeSpeech unkeyed_service
                 (scripted_env 1700000000000 (\<lambda>n. scripted_response 200 [] [1, 2, 3]))
                 (js ''hello'') (Some (js ''Steve Jobs'')) None) = []"
proof -
  have key: "apiKey unkeyed_service = []"
    by (simp add: unkeyed_service_def new_VoiceService_def)
  from synthesizeSpeech_total [of unkeyed_service
      "scripted_env 1700000000000 (\<lambda>n. scripted_response 200 [] [1, 2, 3])"
      "js ''hello''" "Some (js ''Steve Jobs'')" None] key
  show ?thesis by auto
qed

subsection \<open>synthesizeSpeech: truncation\<close>

lemma synth_try_first_call:
  "apiKey vs \<noteq> [] \<Longrightarrow>
   \<exists>rest. provider_calls (synthesizeSpeech_try vs env text persona voiceId) =
     (rate_limit_resume vs (date_now env) (timer_lag env),
      \<lparr> req_voice = selectVoice voiceId persona, req_key = apiKey vs,
        req_text = truncatedText text \<rparr>) # rest"
  by (simp add: synthesizeSpeech_try_def Let_def conclude_calls split: sum.splits)

text \<open>
  C5. With an API key, the first request to the provider carries the first 600 code units
  of the input followed by "..." when the input is longer than 600 (603 in all), and the
  input unchanged when it is 600 or shorter.
\<close>

theorem first_attempt_text:
  "apiKey vs \<noteq> [] \<Longrightarrow>
   \<exists>t request rest.
     provider_calls (synthesizeSpeech vs env text persona voiceId) = (t, request) # rest
     \<and> req_text request = (if length text > 600 then take 600 text @ js ''...'' else text)
     \<and> (length text > 600 \<longrightarrow> length (req_text request) = 603)"
proof -
  assume "apiKey vs \<noteq> []"
  from synth_try_first_call [OF this, of env "text" persona voiceId]
  obtain rest where "provider_calls (synthesizeSpeech vs env text persona voiceId) =
     (rate_limit_resume vs (date_now env) (timer_lag env),
      \<lparr> req_voice = selectVoice voiceId persona, req_key = apiKey vs,
        req_text = truncatedText text \<rparr>) # rest"
    by (auto simp: synth_fields)
  then show ?thesis
    by (simp add: truncatedText_def js_def)
qed

theorem first_attempt_text_witness:
  "apiKey keyed_service \<noteq> []
   \<and> (\<exists>t request rest.
        provider_calls (synthesizeSpeech keyed_service
            (scripted_env 1700000000000 (\<lambda>n. scripted_response 200 [] [1, 2, 3]))
            (replicate 601 0x61) None None) = (t, request) # rest
        \<and> req_text request = replicate 600 0x61 @ js ''...''
        \<and> length (req_text request) = 603)"
proof -
  have key: "apiKey keyed_service \<noteq> []"
    by (simp add: keyed_service_def new_VoiceService_def js_def)
  from first_attempt_text [OF key, of
      "scripted_env 1700000000000 (\<lambda>n. scripted_response 200 [] [1, 2, 3])"
      "replicate 601 0x61" None None] key
  show ?thesis by simp
qed

subsection \<open>synthesizeSpeech: retry on quota\<close>

text \<open>
  C4. With an API key, the requests of one call are the first request and, exactly when
  its response is non-success and its body was read and contains "quota_exceeded", one
  retry that differs only in its text: the first 120 code units of the original input.
  In every other case (success, a thrown fetch, an unreadable body, any other non-success
  body) the first request is the only one.
\<close>

theorem quota_retry:
  assumes key: "apiKey vs \<noteq> []"
  shows "map snd (provider_calls (synthesizeSpeech vs env text persona voiceId)) =
     (let request = \<lparr> req_voice = selectVoice voiceId persona, req_key = apiKey vs,
                       req_text = truncatedText text \<rparr>
      in if (\<exists>r1 body. fetch_tts env 0 request = Inr r1 \<and> \<not> ok r1
                \<and> resp_text r1 = Inr body \<and> includes_str body (js ''quota_exceeded''))
         then [request, request \<lparr> req_text := take 120 text \<rparr>]
         else [request])"
  using key
  by (auto simp: synth_fields synthesizeSpeech_try_def Let_def conclude_calls split: sum.splits)

lemma includes_quota: "includes_str (js ''error: quota_exceeded'') (js ''quota_exceeded'')"
  by (simp add: js_def)

theorem quota_retry_witness:
  "apiKey keyed_service \<noteq> []
   \<and> map (req_text \<circ> snd) (provider_calls (synthesizeSpeech keyed_service
        (scripted_env 1700000000000
           (\<lambda>n. if n = 0 then scripted_response 429 (js ''error: quota_exceeded'') []
                else scripted_response 200 [] [1, 2, 3]))
        (replicate 700 0x61) None None))
     = [replicate 600 0x61 @ js ''...'', replicate 120 0x61]"
proof -
  have key: "apiKey keyed_service \<noteq> []"
    by (simp add: keyed_service_def new_VoiceService_def js_def)
  have "map (req_text \<circ> snd) (provider_calls (synthesizeSpeech keyed_service
        (scripted_env 1700000000000
           (\<lambda>n. if n = 0 then scripted_response 429 (js ''error: quota_exceeded'') []
                else scripted_response 200 [] [1, 2, 3]))
        (replicate 700 0x61) None None))
     = [replicate 600 0x61 @ js ''...'', replicate 120 0x61]"
    unfolding map_map [symmetric] quota_retry [OF key]
    by (simp add: scripted_env_def scripted_response_def ok_def includes_quota truncatedText_def)
  with key show ?thesis by simp
qed

subsection \<open>synthesizeSpeech: rate limiting\<close>




















text \<open>
  The bound on the clock is needed: \<open>setTimeout\<close> replaces a delay above 2^31 - 1 ms by
  1 ms. With a clock 2147482648 ms behind the recorded timestamp the call fires 1 ms
  after it starts.
\<close>

lemma clock_set_back:
  "map fst (provider_calls (synthesizeSpeech
       (keyed_service \<lparr> lastCallTimestamp := 1700000000200 \<rparr>)
       (scripted_env 1697852517552 (\<lambda>n. scripted_response 200 [] [4, 5]))
       (js ''again'') None None)) = [1697852517553]"
  by (simp add: synth_fields synthesizeSpeech_try_def Let_def conclude_calls scripted_env_def
        scripted_response_def ok_def keyed_service_def new_VoiceService_def
        rate_limit_resume_def timer_delay_def js_eq_Nil)

subsection \<open>Voice listing\<close>

text \<open>
  C10. getAllVoices never rejects. It returns the empty array when the API key is missing,
  when the provider answers with a non-success status, when fetch throws, and whenever
  anything inside its try block throws; getVoices, in the same two provider failures,
  returns the two-entry fallback catalog instead.
\<close>

theorem getAllVoices_empty_on_failure:
  "(\<exists>voices. getAllVoices vs fetch_voices = Inr voices)
   \<and> (apiKey vs = [] \<longrightarrow> getAllVoices vs fetch_voices = Inr (JArr []))
   \<and> ((\<exists>response. fetch_voices (apiKey vs) = Inr response \<and> \<not> ok response)
        \<longrightarrow> getAllVoices vs fetch_voices = Inr (JArr []))
   \<and> ((\<exists>e. fetch_voices (apiKey vs) = Inl e) \<longrightarrow> getAllVoices vs fetch_voices = Inr (JArr []))
   \<and> ((\<exists>e. getAllVoices_try vs fetch_voices = Inl e)
        \<longrightarrow> getAllVoices vs fetch_voices = Inr (JArr []))
   \<and> (useElevenLabs vs
        \<and> ((\<exists>response. fetch_voices (apiKey vs) = Inr response \<and> \<not> ok response)
           \<or> (\<exists>e. fetch_voices (apiKey vs) = Inl e))
        \<longrightarrow> getVoices vs fetch_voices = Inr fallback_voices \<and> length fallback_voices = 2)"
  by (auto simp: getAllVoices_def getAllVoices_try_def getVoices_def getVoices_try_def
        fallback_voices_def split: sum.splits)

theorem getAllVoices_empty_on_failure_witness:
  "fetch_voices_503 (apiKey keyed_service) = Inr (scripted_response 503 (js ''unavailable'') [])
   \<and> \<not> ok (scripted_response 503 (js ''unavailable'') [])
   \<and> useElevenLabs keyed_service
   \<and> getAllVoices keyed_service fetch_voices_503 = Inr (JArr [])
   \<and> getVoices keyed_service fetch_voices_503 = Inr fallback_voices
   \<and> apiKey unkeyed_service = []
   \<and> getAllVoices unkeyed_service fetch_voices_503 = Inr (JArr [])"
proof -
  have f: "fetch_voices_503 (apiKey keyed_service) = Inr (scripted_response 503 (js ''unavailable'') [])"
    by (simp add: fetch_voices_503_def)
  have n: "\<not> ok (scripted_response 503 (js ''unavailable'') [])"
    by (simp add: ok_def scripted_response_def)
  have u: "useElevenLabs keyed_service"
    by (simp add: keyed_service_def new_VoiceService_def)
  have k: "apiKey unkeyed_service = []"
    by (simp add: unkeyed_service_def new_VoiceService_def)
  from getAllVoices_empty_on_failure [of keyed_service fetch_voices_503]
       getAllVoices_empty_on_failure [of unkeyed_service fetch_voices_503] f n u k
  show ?thesis by blast
qed

subsection \<open>POST /api/voice/synthesize\<close>









subsection \<open>POST /slack: URL verification\<close>

text \<open>
  C2. A POST to /slack whose body is an object with type "url_verification" is answered by
  the route itself, whatever the configuration (signing secret or none): HTTP 200 with
  Content-Type text/plain and the challenge as body when challenge is a non-empty string,
  HTTP 400 when challenge is absent, empty or not a string. No handler runs.
\<close>

theorem url_verification_reply:
  assumes "b = Some (JObj kvs)"
      and "map_of kvs (js ''type'') = Some (JStr (js ''url_verification''))"
  shows "\<exists>out. post_slack cfg b = Some out
           \<and> handlers_run out = [] \<and> outbound out = []
           \<and> (\<forall>c. map_of kvs (js ''challenge'') = Some (JStr c) \<and> c \<noteq> [] \<longrightarrow>
                 route_reply out = Some \<lparr> reply_status = 200,
                                          reply_type = Some (js ''text/plain''),
                                          reply_body = SendText c \<rparr>)
           \<and> ((\<forall>c. map_of kvs (js ''challenge'') = Some (JStr c) \<longrightarrow> c = []) \<longrightarrow>
                 (\<exists>r. route_reply out = Some r \<and> reply_status r = 400))"
  using assms
  by (auto simp: post_slack_def registerSlackRoutes_def slack_root_def body_field_def Let_def
        reply_with_def js_inject split: option.splits json.splits)

theorem url_verification_reply_witness:
  "map_of [(js ''type'', JStr (js ''url_verification'')), (js ''challenge'', JStr (js ''abc123''))]
      (js ''type'') = Some (JStr (js ''url_verification''))
   \<and> map_option route_reply
        (post_slack token_only
           (Some (JObj [(js ''type'', JStr (js ''url_verification'')),
                        (js ''challenge'', JStr (js ''abc123''))])))
       = Some (Some \<lparr> reply_status = 200, reply_type = Some (js ''text/plain''),
                       reply_body = SendText (js ''abc123'') \<rparr>)
   \<and> map_of [(js ''type'', JStr (js ''url_verification''))] (js ''type'')
       = Some (JStr (js ''url_verification''))
   \<and> map_option (map_option reply_status \<circ> route_reply)
        (post_slack secret_only (Some (JObj [(js ''type'', JStr (js ''url_verification''))])))
       = Some (Some 400)"
proof -
  let ?kvs = "[(js ''type'', JStr (js ''url_verification'')), (js ''challenge'', JStr (js ''abc123''))]"
  let ?bare = "[(js ''type'', JStr (js ''url_verification''))]"
  have ty: "map_of ?kvs (js ''type'') = Some (JStr (js ''url_verification''))" by simp
  have ch: "map_of ?kvs (js ''challenge'') = Some (JStr (js ''abc123'')) \<and> js ''abc123'' \<noteq> []"
    by (simp add: js_inject js_eq_Nil)
  from url_verification_reply [OF refl ty, of token_only] ch
  obtain out where "post_slack token_only (Some (JObj ?kvs)) = Some out"
    and "route_reply out = Some \<lparr> reply_status = 200, reply_type = Some (js ''text/plain''),
                      reply_body = SendText (js ''abc123'') \<rparr>"
    by blast
  then have first: "map_option route_reply (post_slack token_only (Some (JObj ?kvs)))
       = Some (Some \<lparr> reply_status = 200, reply_type = Some (js ''text/plain''),
                       reply_body = SendText (js ''abc123'') \<rparr>)"
    by simp
  have ty2: "map_of ?bare (js ''type'') = Some (JStr (js ''url_verification''))" by simp
  have ch2: "\<forall>c. map_of ?bare (js ''challenge'') = Some (JStr c) \<longrightarrow> c = []"
    by (simp add: js_inject)
  from url_verification_reply [OF refl ty2, of secret_only] ch2
  obtain out2 r where "post_slack secret_only (Some (JObj ?bare)) = Some out2"
    and "route_reply out2 = Some r" and "reply_status r = 400"
    by blast
  then have second: "map_option (map_option reply_status \<circ> route_reply)
        (post_slack secret_only (Some (JObj ?bare))) = Some (Some 400)"
    by simp
  from ty first ty2 second show ?thesis by simp
qed

subsection \<open>The /debate command\<close>

lemma spec_turn_results_length: "length (spec_turn_results envs k ts vs) = length ts"
  by (induction ts arbitrary: k vs) (simp_all add: Let_def)

lemma synthesize_turns_spec:
  "fst (synthesize_turns envs k ts vs buffers)
     = buffers @ spec_successful_audio (spec_turn_results envs k ts vs)"
proof (induction ts arbitrary: k vs buffers)
  case Nil
  then show ?case by (simp add: spec_successful_audio_def)
next
  case (Cons turn rest)
  then show ?case
    by (simp add: Let_def spec_successful_audio_def audio_of_def
             split: sum.splits synth_result.splits)
qed

lemma generateDebate_turns:
  "turns (fst (generateDebate vs envs tpc speakers_opt includeAudio n))
     = make_turns tpc (case speakers_opt of None \<Rightarrow> DEFAULT_SPEAKERS | Some s \<Rightarrow> s) n"
  by (simp add: generateDebate_def Let_def split: prod.splits)

lemma generateDebate_audio:
  "audioBuffer (fst (generateDebate vs envs tpc speakers_opt True n)) =
     (let successes = spec_successful_audio
            (spec_turn_results envs 0 (turns (fst (generateDebate vs envs tpc speakers_opt True n))) vs)
      in if successes = [] then None else Some (concat successes))"
proof -
  let ?ts = "make_turns tpc (case speakers_opt of None \<Rightarrow> DEFAULT_SPEAKERS | Some s \<Rightarrow> s) n"
  obtain bufs vs' where st: "synthesize_turns envs 0 ?ts vs [] = (bufs, vs')"
    by (cases "synthesize_turns envs 0 ?ts vs []")
  with synthesize_turns_spec [of envs 0 ?ts vs "[]"]
  have bufs: "bufs = spec_successful_audio (spec_turn_results envs 0 ?ts vs)" by simp
  have "audioBuffer (fst (generateDebate vs envs tpc speakers_opt True n))
      = (if bufs = [] then None else Some (concat bufs))"
    by (simp add: generateDebate_def Let_def st)
  then show ?thesis by (simp add: generateDebate_turns bufs Let_def)
qed

lemma generateDebate_no_audio:
  "audioBuffer (fst (generateDebate vs envs tpc speakers_opt False n)) = None"
  by (simp add: generateDebate_def Let_def)

lemma deliver_upload_iff:
  "(\<exists>c f b ti. UploadFile c f b ti \<in> set (fst (deliver_debate cfg sf now channel tpc debate)))
   = (SLACK_BOT_TOKEN cfg \<noteq> []
      \<and> sf (PostMessage channel (debate_header @ tpc @ js ''*'' @ [0x0A] @ combinedText debate)) = None
      \<and> (\<exists>b. audioBuffer debate = Some b \<and> length b < 24000000))"
  by (auto simp: deliver_debate_def postSlackMessage_def uploadSlackFile_def Let_def
           split: option.splits if_splits prod.splits)

lemma deliver_upload_content:
  "UploadFile c f b ti \<in> set (fst (deliver_debate cfg sf now channel tpc debate)) \<Longrightarrow>
   audioBuffer debate = Some b \<and> c = channel"
  by (auto simp: deliver_debate_def postSlackMessage_def uploadSlackFile_def Let_def
           split: option.splits if_splits prod.splits)

lemma deliver_first_post:
  "SLACK_BOT_TOKEN cfg \<noteq> [] \<Longrightarrow>
   \<exists>rest. fst (deliver_debate cfg sf now channel tpc debate)
     = PostMessage channel (debate_header @ tpc @ js ''*'' @ [0x0A] @ combinedText debate) # rest"
  by (auto simp: deliver_debate_def postSlackMessage_def uploadSlackFile_def Let_def
           split: option.splits if_splits prod.splits)

lemma deliver_no_token:
  "SLACK_BOT_TOKEN cfg = [] \<Longrightarrow> deliver_debate cfg sf now channel tpc debate = ([], False)"
  by (auto simp: deliver_debate_def postSlackMessage_def uploadSlackFile_def Let_def
           split: option.splits if_splits prod.splits)


lemma trim_Nil: "trim [] = []" by (simp add: trim_def)

lemma text_or_empty_string:
  "trim t \<noteq> [] \<Longrightarrow> text_or_empty (Some (JStr t)) = Inr (trim t)"
  by (cases "t = []") (simp_all add: text_or_empty_def trim_Nil)

lemma handleDebateCommand_nonempty:
  assumes field: "json_prop payload (js ''text'') = Inr (Some (JStr t))"
      and nonempty: "trim t \<noteq> []"
  shows "handleDebateCommand cfg sf now vs envs payload =
     Inr \<lparr> cmd_reply = Some \<lparr> reply_status = 200, reply_type = None,
                reply_body = SendText (generating_prefix @ trim t @ generating_suffix) \<rparr>,
           cmd_outbound = fst (deliver_debate cfg sf now
              (case json_prop payload (js ''channel_id'') of Inl e \<Rightarrow> None | Inr c \<Rightarrow> c)
              (trim t) (fst (generateDebate vs envs (trim t) None False 1))),
           cmd_unhandled = snd (deliver_debate cfg sf now
              (case json_prop payload (js ''channel_id'') of Inl e \<Rightarrow> None | Inr c \<Rightarrow> c)
              (trim t) (fst (generateDebate vs envs (trim t) None False 1))) \<rparr>"
  using nonempty
  by (simp add: handleDebateCommand_def field text_or_empty_string Let_def split: prod.splits)

text \<open>
  C7 (amended). For a /debate payload whose text is a string with a non-empty trimmed
  topic, handleDebateCommand replies at once with the "Generating debate" acknowledgement;
  it generates the debate without audio; with a bot token configured its first outbound
  call posts the header and the combined text to the payload's channel, without a token
  it makes no outbound call; and it never uploads a file. The delivery code uploads the
  audio exactly when a token is configured, the post did not throw and the debate result
  carries a buffer shorter than 24,000,000 bytes, and then it uploads that buffer to the
  channel. With audio requested, generateDebate synthesizes every turn, skips the turns
  that fail and concatenates the audio of the others in turn order, with no buffer when
  none succeeded.
\<close>

theorem debate_command:
  "(json_prop payload (js ''text'') = Inr (Some (JStr t)) \<and> trim t \<noteq> [] \<longrightarrow>
      (\<exists>out. handleDebateCommand cfg sf now vs envs payload = Inr out
         \<and> cmd_reply out = Some \<lparr> reply_status = 200, reply_type = None,
               reply_body = SendText (generating_prefix @ trim t @ generating_suffix) \<rparr>
         \<and> (SLACK_BOT_TOKEN cfg \<noteq> [] \<longrightarrow>
              (\<exists>rest. cmd_outbound out =
                 PostMessage (case json_prop payload (js ''channel_id'') of
                                Inl e \<Rightarrow> None | Inr c \<Rightarrow> c)
                   (debate_header @ trim t @ js ''*'' @ [0x0A]
                    @ combinedText (fst (generateDebate vs envs (trim t) None False 1))) # rest))
         \<and> (SLACK_BOT_TOKEN cfg = [] \<longrightarrow> cmd_outbound out = [])
         \<and> (\<forall>c f b ti. UploadFile c f b ti \<notin> set (cmd_outbound out))))
   \<and> ((\<exists>c f b ti. UploadFile c f b ti \<in> set (fst (deliver_debate cfg sf now channel tpc debate)))
        = (SLACK_BOT_TOKEN cfg \<noteq> []
           \<and> sf (PostMessage channel
                    (debate_header @ tpc @ js ''*'' @ [0x0A] @ combinedText debate)) = None
           \<and> (\<exists>b. audioBuffer debate = Some b \<and> length b < 24000000)))
   \<and> (\<forall>c f b ti. UploadFile c f b ti \<in> set (fst (deliver_debate cfg sf now channel tpc debate))
          \<longrightarrow> audioBuffer debate = Some b \<and> c = channel)
   \<and> audioBuffer (fst (generateDebate vs envs tpc speakers_opt True n)) =
        (let successes = spec_successful_audio
               (spec_turn_results envs 0
                  (turns (fst (generateDebate vs envs tpc speakers_opt True n))) vs)
         in if successes = [] then None else Some (concat successes))
   \<and> length (spec_turn_results envs 0
                (turns (fst (generateDebate vs envs tpc speakers_opt True n))) vs)
       = length (turns (fst (generateDebate vs envs tpc speakers_opt True n)))"
proof (intro conjI impI allI)
  assume h: "json_prop payload (js ''text'') = Inr (Some (JStr t)) \<and> trim t \<noteq> []"
  let ?channel = "case json_prop payload (js ''channel_id'') of Inl e \<Rightarrow> None | Inr c \<Rightarrow> c"
  let ?debate = "fst (generateDebate vs envs (trim t) None False 1)"
  let ?calls = "fst (deliver_debate cfg sf now ?channel (trim t) ?debate)"
  from h have eq: "handleDebateCommand cfg sf now vs envs payload =
     Inr \<lparr> cmd_reply = Some \<lparr> reply_status = 200, reply_type = None,
                reply_body = SendText (generating_prefix @ trim t @ generating_suffix) \<rparr>,
           cmd_outbound = ?calls,
           cmd_unhandled = snd (deliver_debate cfg sf now ?channel (trim t) ?debate) \<rparr>"
    using handleDebateCommand_nonempty [of payload t cfg sf now vs envs] by blast
  have no_upload: "\<forall>c f b ti. UploadFile c f b ti \<notin> set ?calls"
    using deliver_upload_iff [of cfg sf now ?channel "trim t" ?debate]
    by (simp add: generateDebate_no_audio)
  have post: "SLACK_BOT_TOKEN cfg \<noteq> [] \<longrightarrow>
      (\<exists>rest. ?calls = PostMessage ?channel
          (debate_header @ trim t @ js ''*'' @ [0x0A] @ combinedText ?debate) # rest)"
    using deliver_first_post [of cfg sf now ?channel "trim t" ?debate] by blast
  have none: "SLACK_BOT_TOKEN cfg = [] \<longrightarrow> ?calls = []"
    by (simp add: deliver_no_token)
  show "\<exists>out. handleDebateCommand cfg sf now vs envs payload = Inr out
         \<and> cmd_reply out = Some \<lparr> reply_status = 200, reply_type = None,
               reply_body = SendText (generating_prefix @ trim t @ generating_suffix) \<rparr>
         \<and> (SLACK_BOT_TOKEN cfg \<noteq> [] \<longrightarrow>
              (\<exists>rest. cmd_outbound out =
                 PostMessage ?channel
                   (debate_header @ trim t @ js ''*'' @ [0x0A] @ combinedText ?debate) # rest))
         \<and> (SLACK_BOT_TOKEN cfg = [] \<longrightarrow> cmd_outbound out = [])
         \<and> (\<forall>c f b ti. UploadFile c f b ti \<notin> set (cmd_outbound out))"
    unfolding eq using no_upload post none by simp
next
  show "(\<exists>c f b ti. UploadFile c f b ti \<in> set (fst (deliver_debate cfg sf now channel tpc debate)))
        = (SLACK_BOT_TOKEN cfg \<noteq> []
           \<and> sf (PostMessage channel
                    (debate_header @ tpc @ js ''*'' @ [0x0A] @ combinedText debate)) = None
           \<and> (\<exists>b. audioBuffer debate = Some b \<and> length b < 24000000))"
    by (rule deliver_upload_iff)
next
  fix c f b ti
  assume "UploadFile c f b ti \<in> set (fst (deliver_debate cfg sf now channel tpc debate))"
  then show "audioBuffer debate = Some b" and "c = channel"
    using deliver_upload_content by blast+
next
  show "audioBuffer (fst (generateDebate vs envs tpc speakers_opt True n)) =
        (let successes = spec_successful_audio
               (spec_turn_results envs 0
                  (turns (fst (generateDebate vs envs tpc speakers_opt True n))) vs)
         in if successes = [] then None else Some (concat successes))"
    by (rule generateDebate_audio)
next
  show "length (spec_turn_results envs 0
                (turns (fst (generateDebate vs envs tpc speakers_opt True n))) vs)
       = length (turns (fst (generateDebate vs envs tpc speakers_opt True n)))"
    by (rule spec_turn_results_length)
qed

lemma debate_payload_text:
  "json_prop debate_payload (js ''text'') = Inr (Some (JStr (js ''AI ethics'')))"
  by (simp add: debate_payload_def js_inject)

lemma debate_payload_channel:
  "json_prop debate_payload (js ''channel_id'') = Inr (Some (JStr (js ''C1'')))"
  by (simp add: debate_payload_def js_inject)

lemma trim_ai_ethics: "trim (js ''AI ethics'') = js ''AI ethics''"
  by (simp add: trim_def is_white_space_def js_def)

lemma default_turns:
  "turns (fst (generateDebate vs envs (js ''AI ethics'') None True 1)) =
     [\<lparr> speaker = js ''Albert Einstein'',
        turn_text = einstein_prefix @ js ''AI ethics'' @ einstein_suffix \<rparr>,
      \<lparr> speaker = js ''Steve Jobs'',
        turn_text = jobs_prefix @ js ''AI ethics'' @ jobs_suffix \<rparr>]"
  by (simp add: generateDebate_turns make_turns_def round_turns_def DEFAULT_SPEAKERS_def
        craftPerspective_def trim_ai_ethics js_inject upt_rec [of 0] Let_def)

lemma returned_failed_turn:
  "returned (synthesizeSpeech keyed_service (first_turn_fails 0) t p None)
     = Inr (Fallback t p (js ''exception''))"
  by (simp add: synth_returned synthesizeSpeech_try_def Let_def conclude_def first_turn_fails_def
        scripted_env_def scripted_response_def ok_def keyed_service_def new_VoiceService_def
        js_eq_Nil js_def)

lemma service_failed_turn:
  "service_after (synthesizeSpeech keyed_service (first_turn_fails 0) t p None) = keyed_service"
  by (simp add: synth_fields synthesizeSpeech_try_def Let_def conclude_def first_turn_fails_def
        scripted_env_def scripted_response_def ok_def keyed_service_def new_VoiceService_def
        js_eq_Nil js_def)

lemma returned_good_turn:
  "returned (synthesizeSpeech keyed_service (first_turn_fails (Suc 0)) t p None)
     = Inr (Audio [4, 5])"
  by (simp add: synth_returned synthesizeSpeech_try_def Let_def conclude_def first_turn_fails_def
        scripted_env_def scripted_response_def ok_def keyed_service_def new_VoiceService_def
        js_eq_Nil)

lemma mixed_outcomes:
  "spec_successful_audio (spec_turn_results first_turn_fails 0
      (turns (fst (generateDebate keyed_service first_turn_fails (js ''AI ethics'') None True 1)))
      keyed_service) = [[4, 5]]"
  unfolding default_turns
  by (simp add: Let_def spec_successful_audio_def audio_of_def
        returned_failed_turn service_failed_turn returned_good_turn)


lemma upload_happens:
  "deliver_debate both_configured (\<lambda>c. None) 1700000000000 (Some (JStr (js ''C1'')))
     (js ''AI ethics'') audio_debate
   = ([PostMessage (Some (JStr (js ''C1''))) (debate_header @ js ''AI ethics'' @ js ''*'' @ [0x0A]),
       UploadFile (Some (JStr (js ''C1''))) (js ''debate-'' @ decimal_int 1700000000000 @ js ''.mp3'')
         [1, 2, 3] (js ''Debate Audio: '' @ js ''AI ethics'')], False)"
  by (simp add: deliver_debate_def postSlackMessage_def uploadSlackFile_def both_configured_def
        audio_debate_def js_eq_Nil Let_def)


theorem debate_command_witness:
  "json_prop debate_payload (js ''text'') = Inr (Some (JStr (js ''AI ethics'')))
   \<and> trim (js ''AI ethics'') \<noteq> []
   \<and> SLACK_BOT_TOKEN both_configured \<noteq> []
   \<and> map_sum id cmd_reply
        (handleDebateCommand both_configured (\<lambda>c. None) 1700000000000 keyed_service
           (\<lambda>k. scripted_env 1700000000000 (\<lambda>n. scripted_response 200 [] [1, 2, 3]))
           debate_payload)
       = Inr (Some \<lparr> reply_status = 200, reply_type = None,
                reply_body = SendText (generating_prefix @ js ''AI ethics'' @ generating_suffix) \<rparr>)
   \<and> map_sum id (hd \<circ> cmd_outbound)
        (handleDebateCommand both_configured (\<lambda>c. None) 1700000000000 keyed_service
           (\<lambda>k. scripted_env 1700000000000 (\<lambda>n. scripted_response 200 [] [1, 2, 3]))
           debate_payload)
       = Inr (PostMessage (Some (JStr (js ''C1'')))
                (debate_header @ js ''AI ethics'' @ js ''*'' @ [0x0A]
                 @ combinedText (fst (generateDebate keyed_service
                     (\<lambda>k. scripted_env 1700000000000 (\<lambda>n. scripted_response 200 [] [1, 2, 3]))
                     (js ''AI ethics'') None False 1))))
   \<and> audioBuffer audio_debate = Some [1, 2, 3]
   \<and> (\<exists>c f b ti. UploadFile c f b ti \<in> set (fst (deliver_debate both_configured (\<lambda>c. None)
          1700000000000 (Some (JStr (js ''C1''))) (js ''AI ethics'') audio_debate)))
   \<and> audioBuffer (fst (generateDebate keyed_service first_turn_fails (js ''AI ethics'')
          None True 1)) = Some [4, 5]"
proof -
  let ?envs = "\<lambda>k. scripted_env 1700000000000 (\<lambda>n. scripted_response 200 [] [1, 2, 3])"
  have nonempty: "trim (js ''AI ethics'') \<noteq> []"
    by (simp add: trim_ai_ethics js_eq_Nil)
  have token: "SLACK_BOT_TOKEN both_configured \<noteq> []"
    by (simp add: both_configured_def js_eq_Nil)
  from debate_command [of debate_payload "js ''AI ethics''" both_configured "\<lambda>c. None"
         1700000000000 keyed_service ?envs, THEN conjunct1] debate_payload_text nonempty token
  obtain out rest where
        run: "handleDebateCommand both_configured (\<lambda>c. None) 1700000000000 keyed_service
                ?envs debate_payload = Inr out"
    and ack: "cmd_reply out = Some \<lparr> reply_status = 200, reply_type = None,
                reply_body = SendText (generating_prefix @ trim (js ''AI ethics'')
                                       @ generating_suffix) \<rparr>"
    and post: "cmd_outbound out =
                 PostMessage (case json_prop debate_payload (js ''channel_id'') of
                                Inl e \<Rightarrow> None | Inr c \<Rightarrow> c)
                   (debate_header @ trim (js ''AI ethics'') @ js ''*'' @ [0x0A]
                    @ combinedText (fst (generateDebate keyed_service ?envs
                        (trim (js ''AI ethics'')) None False 1))) # rest"
    by blast
  have buffer: "audioBuffer audio_debate = Some [1, 2, 3]"
    by (simp add: audio_debate_def)
  have small: "\<exists>b. audioBuffer audio_debate = Some b \<and> length b < 24000000"
    by (simp add: audio_debate_def)
  from debate_command [of _ _ both_configured "\<lambda>c. None" 1700000000000 _ _
         "Some (JStr (js ''C1''))" "js ''AI ethics''" audio_debate,
         THEN conjunct2, THEN conjunct1] token small
  have upload: "\<exists>c f b ti. UploadFile c f b ti \<in> set (fst (deliver_debate both_configured
          (\<lambda>c. None) 1700000000000 (Some (JStr (js ''C1''))) (js ''AI ethics'') audio_debate))"
    by simp
  from debate_command [of _ _ _ _ _ keyed_service first_turn_fails _ "js ''AI ethics''" _
         None 1, THEN conjunct2, THEN conjunct2, THEN conjunct2, THEN conjunct1]
  have audio: "audioBuffer (fst (generateDebate keyed_service first_turn_fails (js ''AI ethics'')
          None True 1)) = Some [4, 5]"
    unfolding mixed_outcomes Let_def by simp
  from run ack post debate_payload_text nonempty token buffer upload audio show ?thesis
    by (simp add: trim_ai_ethics debate_payload_channel)
qed

text \<open>
  C7 as stated fails without a bot token: the command is acknowledged and nothing is
  posted to the channel.
\<close>

lemma deliver_nothing_without_token:
  "fst (deliver_debate secret_only sf now channel tpc debate) = []"
  by (simp add: deliver_no_token secret_only_def)

theorem debate_command_counterexample:
  "trim (js ''AI ethics'') \<noteq> []
   \<and> map_sum id cmd_reply
        (handleDebateCommand secret_only (\<lambda>c. None) 1700000000000 keyed_service
           (\<lambda>k. scripted_env 1700000000000 (\<lambda>n. scripted_response 200 [] [1, 2, 3]))
           debate_payload)
       = Inr (Some \<lparr> reply_status = 200, reply_type = None,
                reply_body = SendText (generating_prefix @ js ''AI ethics'' @ generating_suffix) \<rparr>)
   \<and> map_sum id cmd_outbound
        (handleDebateCommand secret_only (\<lambda>c. None) 1700000000000 keyed_service
           (\<lambda>k. scripted_env 1700000000000 (\<lambda>n. scripted_response 200 [] [1, 2, 3]))
           debate_payload)
       = Inr []"
proof -
  have nonempty: "trim (js ''AI ethics'') \<noteq> []"
    by (simp add: trim_ai_ethics js_eq_Nil)
  from handleDebateCommand_nonempty [OF debate_payload_text nonempty] nonempty
  show ?thesis
    by (simp add: deliver_nothing_without_token trim_ai_ethics)
qed

subsection \<open>POST /slack/webhook: signature verification\<close>

lemma unat_ucast_16_8: "c < (0x80 :: jschar) \<Longrightarrow> unat (ucast c :: byte) = unat c"
  by (simp add: unsigned_ucast_eq word_less_nat_alt take_bit_nat_eq_self)

lemma ascii_ucast_inject:
  "c < (0x80 :: jschar) \<Longrightarrow> d < 0x80 \<Longrightarrow> (ucast c :: byte) = ucast d \<Longrightarrow> c = d"
  by (metis unat_ucast_16_8 word_unat_eq_iff)

lemma ascii_byte_small: "c < (0x80 :: jschar) \<Longrightarrow> (ucast c :: byte) < 0x80"
  by (simp add: word_less_nat_alt unat_ucast_16_8)

lemma or_big: "(0x80 :: byte) \<le> k \<Longrightarrow> \<not> (k OR x < 0x80)"
proof -
  assume "(0x80 :: byte) \<le> k"
  moreover have "k \<le> k OR x" by (rule le_word_or2)
  ultimately have "0x80 \<le> k OR x" by (rule order_trans)
  then show ?thesis by (simp add: not_less)
qed

lemma utf8_one_head:
  "\<not> c < 0x80 \<Longrightarrow> \<exists>b bs. utf8_one c = b # bs \<and> \<not> b < 0x80"
  by (auto simp: utf8_one_def or_big)

lemma utf8_pair_head: "\<exists>b bs. utf8_pair c d = b # bs \<and> \<not> b < 0x80"
  by (auto simp: utf8_pair_def Let_def or_big)

lemma surrogate_not_ascii:
  "is_high_surrogate c \<or> is_low_surrogate c \<Longrightarrow> \<not> c < 0x80"
  by (auto simp: is_high_surrogate_def is_low_surrogate_def word_le_nat_alt word_less_nat_alt)

lemma ascii_not_surrogate:
  "c < 0x80 \<Longrightarrow> \<not> is_high_surrogate c" "c < 0x80 \<Longrightarrow> \<not> is_low_surrogate c"
  by (auto simp: is_high_surrogate_def is_low_surrogate_def word_le_nat_alt word_less_nat_alt)

text \<open>The first byte of the encoding of a string that starts with a non-ASCII code unit.\<close>

lemma utf8_head_not_ascii:
  "\<not> c < 0x80 \<Longrightarrow> \<exists>b bs. utf8_encode (c # cs) = b # bs \<and> \<not> b < 0x80"
proof (cases cs)
  case Nil
  assume "\<not> c < 0x80"
  with Nil utf8_one_head [of c] show ?thesis by auto
next
  case (Cons d ds)
  assume "\<not> c < 0x80"
  with Cons utf8_one_head [of c] utf8_pair_head [of c d] show ?thesis by auto
qed

lemma utf8_head_ascii:
  "c < 0x80 \<Longrightarrow> utf8_encode (c # cs) = ucast c # utf8_encode cs"
  by (cases cs) (simp_all add: utf8_one_def ascii_not_surrogate)

lemma utf8_ascii: "\<forall>c \<in> set e. c < 0x80 \<Longrightarrow> utf8_encode e = map ucast e"
  by (induction e) (simp_all add: utf8_head_ascii)

lemma utf8_ascii_inject:
  "\<forall>c \<in> set e. c < 0x80 \<Longrightarrow> utf8_encode s = utf8_encode e \<Longrightarrow> s = e"
proof (induction s arbitrary: e)
  case Nil
  then show ?case by (cases e) (auto simp: utf8_head_ascii)
next
  case (Cons c cs)
  show ?case
  proof (cases e)
    case Nil
    with Cons.prems show ?thesis
      by (cases "c < 0x80") (auto simp: utf8_head_ascii dest: utf8_head_not_ascii [of c cs])
  next
    case (Cons d ds)
    with Cons.prems have d: "d < 0x80" and ds: "\<forall>x \<in> set ds. x < 0x80" by auto
    have enc: "utf8_encode (c # cs) = ucast d # utf8_encode ds"
      using Cons.prems Cons d by (simp add: utf8_head_ascii)
    show ?thesis
    proof (cases "c < 0x80")
      case True
      with enc have "(ucast c :: byte) = ucast d" and "utf8_encode cs = utf8_encode ds"
        by (simp_all add: utf8_head_ascii)
      with True d ds Cons.IH [of ds] Cons show ?thesis
        by (auto dest: ascii_ucast_inject)
    next
      case False
      from utf8_head_not_ascii [OF False, of cs] enc ascii_byte_small [OF d]
      show ?thesis by auto
    qed
  qed
qed

lemma hex_digit_ascii: "n < 16 \<Longrightarrow> hex_digit n < 0x80"
  unfolding hex_digit_def
  by (auto simp: word_less_nat_alt unat_word_ariths unsigned_ucast_eq take_bit_nat_eq_self
           split: if_splits)


lemma nibble_high: "drop_bit 4 (b :: byte) < 16"
proof -
  have "unat b < 2 ^ 8" using unsigned_less [of b, where ?'a = nat] by simp
  then have "unat b div 16 < 16" by simp
  then show ?thesis
    by (simp add: word_less_nat_alt drop_bit_eq_div unat_div)
qed

lemma nibble_low: "(b :: byte) AND 0x0F < 16"
proof -
  have "b AND 0x0F \<le> 0x0F" by (rule word_and_le1)
  then show ?thesis by (simp add: word_le_nat_alt word_less_nat_alt)
qed

lemma to_hex_ascii: "\<forall>c \<in> set (to_hex bs). c < 0x80"
  by (induction bs) (auto simp: to_hex_def hex_digit_ascii nibble_high nibble_low)

lemma expected_signature_ascii:
  "\<forall>c \<in> set (expected_signature cfg env raw ts). c < 0x80"
  using to_hex_ascii by (auto simp: expected_signature_def Let_def js_def)

lemma signature_bytes_differ:
  "sg \<noteq> expected_signature cfg env raw ts \<Longrightarrow>
   utf8_encode (expected_signature cfg env raw ts) \<noteq> utf8_encode sg"
  using utf8_ascii_inject [OF expected_signature_ascii] by metis

lemma verify_rejects:
  assumes "timestamp = None \<or> timestamp = Some [] \<or> signature = None \<or> signature = Some []
      \<or> (\<exists>ts. timestamp = Some ts \<and> outside_window (clock env) (to_number env ts))
      \<or> (\<exists>ts sg. timestamp = Some ts \<and> signature = Some sg
            \<and> sg \<noteq> expected_signature cfg env raw ts
            \<and> length (utf8_encode sg) = length (utf8_encode (expected_signature cfg env raw ts)))"
  shows "verifySlackSignature cfg env raw timestamp signature = Inr False"
  using assms
  by (auto simp: verifySlackSignature_def timingSafeEqual_def signature_bytes_differ
           split: option.splits)

lemma verify_not_true:
  assumes "\<forall>ts sg. timestamp = Some ts \<and> signature = Some sg \<longrightarrow>
             sg \<noteq> expected_signature cfg env raw ts"
  shows "verifySlackSignature cfg env raw timestamp signature \<noteq> Inr True"
  using assms
  by (auto simp: verifySlackSignature_def timingSafeEqual_def signature_bytes_differ
           split: option.splits if_splits)

text \<open>
  C1 (amended). With a signing secret configured (the route exists only then), a POST to
  /slack/webhook gets HTTP 401 "Invalid signature", with no handler run and no outbound
  Slack call, when the timestamp or the signature header is absent or empty, when
  Math.abs(Date.now() / 1000 - Number(timestamp)), computed in double arithmetic with the
  division and the subtraction each rounded, is greater than 300, or when the signature
  differs from "v0=" followed by the hex HMAC-SHA256 of "v0:<timestamp>:<rawBody>" while
  having as many bytes. Whenever the signature is not that expected value, whatever its
  length, no handler runs and no outbound Slack call is made.
\<close>

theorem webhook_rejects_invalid:
  assumes secret: "SLACK_SIGNING_SECRET cfg \<noteq> []"
  shows "(req_timestamp req = None \<or> req_timestamp req = Some []
          \<or> req_signature req = None \<or> req_signature req = Some []
          \<or> (\<exists>ts. req_timestamp req = Some ts \<and> outside_window (clock env) (to_number env ts))
          \<or> (\<exists>ts sg. req_timestamp req = Some ts \<and> req_signature req = Some sg
                \<and> sg \<noteq> expected_signature cfg env (req_rawBody req) ts
                \<and> length (utf8_encode sg)
                    = length (utf8_encode (expected_signature cfg env (req_rawBody req) ts)))
          \<longrightarrow> post_slack_webhook cfg env req =
                Some \<lparr> route_reply = Some \<lparr> reply_status = 401, reply_type = None,
                                          reply_body = SendText (js ''Invalid signature'') \<rparr>,
                       handlers_run = [], outbound = [] \<rparr>)
       \<and> ((\<forall>ts sg. req_timestamp req = Some ts \<and> req_signature req = Some sg
                \<longrightarrow> sg \<noteq> expected_signature cfg env (req_rawBody req) ts)
          \<longrightarrow> (\<exists>out. post_slack_webhook cfg env req = Some out
                 \<and> handlers_run out = [] \<and> outbound out = []))"
proof (intro conjI impI)
  assume "req_timestamp req = None \<or> req_timestamp req = Some []
          \<or> req_signature req = None \<or> req_signature req = Some []
          \<or> (\<exists>ts. req_timestamp req = Some ts \<and> outside_window (clock env) (to_number env ts))
          \<or> (\<exists>ts sg. req_timestamp req = Some ts \<and> req_signature req = Some sg
                \<and> sg \<noteq> expected_signature cfg env (req_rawBody req) ts
                \<and> length (utf8_encode sg)
                    = length (utf8_encode (expected_signature cfg env (req_rawBody req) ts)))"
  then have "verifySlackSignature cfg env (req_rawBody req) (req_timestamp req) (req_signature req)
      = Inr False"
    by (rule verify_rejects)
  with secret show "post_slack_webhook cfg env req =
                Some \<lparr> route_reply = Some \<lparr> reply_status = 401, reply_type = None,
                                          reply_body = SendText (js ''Invalid signature'') \<rparr>,
                       handlers_run = [], outbound = [] \<rparr>"
    by (simp add: post_slack_webhook_def registerSlackRoutes_def slack_webhook_def reply_with_def)
next
  assume "\<forall>ts sg. req_timestamp req = Some ts \<and> req_signature req = Some sg
                \<longrightarrow> sg \<noteq> expected_signature cfg env (req_rawBody req) ts"
  then have "verifySlackSignature cfg env (req_rawBody req) (req_timestamp req) (req_signature req)
      \<noteq> Inr True"
    by (rule verify_not_true)
  with secret show "\<exists>out. post_slack_webhook cfg env req = Some out
                 \<and> handlers_run out = [] \<and> outbound out = []"
    by (auto simp: post_slack_webhook_def registerSlackRoutes_def slack_webhook_def reply_with_def
             split: sum.splits bool.splits)
qed


lemma length_to_hex: "length (to_hex bs) = 2 * length bs"
  by (induction bs) (simp_all add: to_hex_def)

lemma length_expected:
  "length (utf8_encode (expected_signature cfg env raw ts))
     = 3 + 2 * length (hmac_sha256 env (utf8_encode (SLACK_SIGNING_SECRET cfg))
                         (utf8_encode (js ''v0:'' @ ts @ js '':''
                            @ (case raw of None \<Rightarrow> js ''undefined'' | Some r \<Rightarrow> r))))"
proof -
  have "length (utf8_encode (expected_signature cfg env raw ts))
      = length (expected_signature cfg env raw ts)"
    by (simp add: utf8_ascii [OF expected_signature_ascii])
  then show ?thesis by (simp add: expected_signature_def Let_def length_to_hex js_length)
qed

lemma hex_digit_zero: "hex_digit 0 = 0x30" by (simp add: hex_digit_def)

lemma to_hex_zeros: "to_hex (replicate n 0) = replicate (2 * n) 0x30"
  by (induction n) (simp_all add: to_hex_def hex_digit_zero)

lemma fixed_expected:
  "expected_signature secret_only fixed_env raw ts = js ''v0='' @ replicate 64 0x30"
  by (simp add: expected_signature_def fixed_env_def Let_def to_hex_zeros)

lemmas double_arithmetic =
  outside_window_def js_divide_int_def round_ratio_def round_scaled_def binary_exponent_def
  round_half_even_def scale2_def log2floor.simps Let_def

lemma fixed_window: "\<not> outside_window (clock fixed_env) (to_number fixed_env ts)"
  by (simp add: fixed_env_def) (simp add: double_arithmetic)

lemma boundary_window:
  "\<not> outside_window (clock boundary_env)
        (to_number boundary_env (js ''1700000000.000999927520751953125''))"
  by (simp add: boundary_env_def fixed_env_def) (simp add: double_arithmetic)

lemma late_window: "outside_window (clock late_env) (to_number late_env ts)"
  by (simp add: late_env_def fixed_env_def) (simp add: double_arithmetic)

lemma boundary_exact: "spec_outside_window (clock boundary_env) 3565158400002097 (- 21)"
  by (simp add: boundary_env_def spec_outside_window_def scale2_def)

lemma zero_hmac_expected:
  "hmac_sha256 env = (\<lambda>key msg. replicate 32 0) \<Longrightarrow>
   expected_signature cfg env raw ts = js ''v0='' @ replicate 64 0x30"
  by (simp add: expected_signature_def Let_def to_hex_zeros)

lemma boundary_fields:
  "hmac_sha256 boundary_env = (\<lambda>key msg. replicate 32 0)"
  "slack_fetch boundary_env = (\<lambda>c. None)"
  "clock boundary_env = 1700000300001"
  "env_service boundary_env = keyed_service"
  "env_synth boundary_env = env_synth fixed_env"
  by (simp_all add: boundary_env_def fixed_env_def)

lemma boundary_verified:
  "verifySlackSignature both_configured boundary_env (req_rawBody boundary_request)
     (req_timestamp boundary_request) (req_signature boundary_request) = Inr True"
  by (simp add: verifySlackSignature_def boundary_request_def debate_request_def
        boundary_window zero_hmac_expected [OF boundary_fields(1)] timingSafeEqual_def js_eq_Nil)
     (simp add: both_configured_def js_eq_Nil)

lemma boundary_body: "req_body boundary_request = Some debate_payload"
  "req_content_type boundary_request = Some (js ''application/x-www-form-urlencoded'')"
  by (simp_all add: boundary_request_def debate_request_def debate_payload_def)

lemma debate_payload_props:
  "json_prop debate_payload (js ''payload'') = Inr None"
  "json_prop debate_payload (js ''command'') = Inr (Some (JStr (js ''/debate'')))"
  "body_field (Some debate_payload) (js ''type'') = None"
  "no_keys (Some debate_payload) = False"
  "json_truthy (Some debate_payload)"
  by (simp_all add: debate_payload_def js_inject body_field_def no_keys_def)

lemma boundary_dispatch:
  "dispatch_verified both_configured boundary_env boundary_request =
     Inr \<lparr> route_reply = Some \<lparr> reply_status = 200, reply_type = None,
                reply_body = SendText (generating_prefix @ js ''AI ethics'' @ generating_suffix) \<rparr>,
           handlers_run = [HandleDebateCommand debate_payload],
           outbound = fst (deliver_debate both_configured (\<lambda>c. None) 1700000300001
              (Some (JStr (js ''C1''))) (js ''AI ethics'')
              (fst (generateDebate keyed_service (env_synth fixed_env) (js ''AI ethics'')
                      None False 1))) \<rparr>"
proof -
  have nonempty: "trim (js ''AI ethics'') \<noteq> []"
    by (simp add: trim_ai_ethics js_eq_Nil)
  show ?thesis
    by (simp add: dispatch_verified_def reparsed_body_def boundary_body debate_payload_props
          dispatch_command_def js_inject Let_def boundary_fields
          handleDebateCommand_nonempty [OF debate_payload_text nonempty]
          debate_payload_channel trim_ai_ethics)
qed

lemma boundary_accepted:
  "post_slack_webhook both_configured boundary_env boundary_request =
     Some \<lparr> route_reply = Some \<lparr> reply_status = 200, reply_type = None,
                reply_body = SendText (generating_prefix @ js ''AI ethics'' @ generating_suffix) \<rparr>,
           handlers_run = [HandleDebateCommand debate_payload],
           outbound = fst (deliver_debate both_configured (\<lambda>c. None) 1700000300001
              (Some (JStr (js ''C1''))) (js ''AI ethics'')
              (fst (generateDebate keyed_service (env_synth fixed_env) (js ''AI ethics'')
                      None False 1))) \<rparr>"
  unfolding post_slack_webhook_def slack_webhook_def boundary_verified boundary_dispatch
  by (simp add: registerSlackRoutes_def both_configured_def js_eq_Nil)

lemma boundary_posts:
  "hd (fst (deliver_debate both_configured (\<lambda>c. None) 1700000300001
              (Some (JStr (js ''C1''))) (js ''AI ethics'') debate))
   = PostMessage (Some (JStr (js ''C1'')))
       (debate_header @ js ''AI ethics'' @ js ''*'' @ [0x0A] @ combinedText debate)"
proof -
  have token: "SLACK_BOT_TOKEN both_configured \<noteq> []"
    by (simp add: both_configured_def js_eq_Nil)
  from deliver_first_post [OF token] show ?thesis by (metis list.sel(1))
qed

theorem webhook_rejects_invalid_witness:
  "SLACK_SIGNING_SECRET secret_only \<noteq> []
   \<and> js ''v0='' @ replicate 64 0x31
       \<noteq> expected_signature secret_only fixed_env
            (req_rawBody (debate_request (Some (js ''v0='' @ replicate 64 0x31))))
            (js ''1700000000'')
   \<and> length (utf8_encode (js ''v0='' @ replicate 64 0x31))
       = length (utf8_encode (expected_signature secret_only fixed_env
            (req_rawBody (debate_request (Some (js ''v0='' @ replicate 64 0x31))))
            (js ''1700000000'')))
   \<and> post_slack_webhook secret_only fixed_env
         (debate_request (Some (js ''v0='' @ replicate 64 0x31)))
       = Some \<lparr> route_reply = Some \<lparr> reply_status = 401, reply_type = None,
                                      reply_body = SendText (js ''Invalid signature'') \<rparr>,
                handlers_run = [], outbound = [] \<rparr>
   \<and> req_signature (debate_request (Some (js ''v0='' @ replicate 64 0x30)))
       = Some (expected_signature secret_only late_env
            (req_rawBody (debate_request (Some (js ''v0='' @ replicate 64 0x30))))
            (js ''1700000000''))
   \<and> outside_window (clock late_env) (to_number late_env (js ''1700000000''))
   \<and> post_slack_webhook secret_only late_env
         (debate_request (Some (js ''v0='' @ replicate 64 0x30)))
       = Some \<lparr> route_reply = Some \<lparr> reply_status = 401, reply_type = None,
                                      reply_body = SendText (js ''Invalid signature'') \<rparr>,
                handlers_run = [], outbound = [] \<rparr>
   \<and> js ''v0=00'' \<noteq> expected_signature secret_only fixed_env
            (req_rawBody (debate_request (Some (js ''v0=00'')))) (js ''1700000000'')
   \<and> map_option handlers_run
         (post_slack_webhook secret_only fixed_env (debate_request (Some (js ''v0=00'')))) = Some []
   \<and> map_option outbound
         (post_slack_webhook secret_only fixed_env (debate_request (Some (js ''v0=00'')))) = Some []"
proof -
  let ?sg = "js ''v0='' @ replicate 64 0x31"
  let ?req = "debate_request (Some ?sg)"
  let ?good = "debate_request (Some (js ''v0='' @ replicate 64 0x30))"
  let ?short = "debate_request (Some (js ''v0=00''))"
  have secret: "SLACK_SIGNING_SECRET secret_only \<noteq> []"
    by (simp add: secret_only_def js_eq_Nil)
  have differ: "?sg \<noteq> expected_signature secret_only fixed_env (req_rawBody ?req) (js ''1700000000'')"
    by (simp add: fixed_expected)
  have ascii: "\<forall>c \<in> set ?sg. c < 0x80" by (simp add: js_def)
  have len: "length (utf8_encode ?sg)
      = length (utf8_encode (expected_signature secret_only fixed_env (req_rawBody ?req)
                  (js ''1700000000'')))"
    by (simp add: utf8_ascii [OF ascii] length_expected fixed_env_def js_length)
  have ts: "req_timestamp ?req = Some (js ''1700000000'')"
    and sg: "req_signature ?req = Some ?sg"
    by (simp_all add: debate_request_def)
  from webhook_rejects_invalid [OF secret, of ?req fixed_env] ts sg differ len
  have wrong: "post_slack_webhook secret_only fixed_env ?req
       = Some \<lparr> route_reply = Some \<lparr> reply_status = 401, reply_type = None,
                                      reply_body = SendText (js ''Invalid signature'') \<rparr>,
                handlers_run = [], outbound = [] \<rparr>"
    by blast
  have late_hmac: "hmac_sha256 late_env = (\<lambda>key msg. replicate 32 0)"
    by (simp add: late_env_def fixed_env_def)
  have signed: "req_signature ?good
       = Some (expected_signature secret_only late_env (req_rawBody ?good) (js ''1700000000''))"
    by (simp add: zero_hmac_expected [OF late_hmac] debate_request_def)
  have ts_good: "req_timestamp ?good = Some (js ''1700000000'')"
    by (simp add: debate_request_def)
  from webhook_rejects_invalid [OF secret, of ?good late_env] ts_good late_window
  have stale: "post_slack_webhook secret_only late_env ?good
       = Some \<lparr> route_reply = Some \<lparr> reply_status = 401, reply_type = None,
                                      reply_body = SendText (js ''Invalid signature'') \<rparr>,
                handlers_run = [], outbound = [] \<rparr>"
    by blast
  have "length (js ''v0=00'') \<noteq> length (js ''v0='' @ replicate 64 (0x30 :: jschar))"
    by (simp add: js_length)
  then have short_differs: "js ''v0=00'' \<noteq> expected_signature secret_only fixed_env
      (req_rawBody ?short) (js ''1700000000'')"
    unfolding fixed_expected by metis
  have ts_short: "req_timestamp ?short = Some (js ''1700000000'')"
    and sg_short: "req_signature ?short = Some (js ''v0=00'')"
    by (simp_all add: debate_request_def)
  from webhook_rejects_invalid [OF secret, of ?short fixed_env, THEN conjunct2]
    ts_short sg_short short_differs
  obtain out where "post_slack_webhook secret_only fixed_env ?short = Some out"
    and "handlers_run out = []" and "outbound out = []"
    by auto
  then have quiet: "map_option handlers_run (post_slack_webhook secret_only fixed_env ?short) = Some []"
      "map_option outbound (post_slack_webhook secret_only fixed_env ?short) = Some []"
    by simp_all
  from secret differ len wrong signed late_window stale short_differs quiet
  show ?thesis by blast
qed

text \<open>
  C1 as stated fails in three ways. Without a signing secret the route is not registered,
  so the request is not answered with 401 by this module. With a secret, a signature whose
  byte length is not that of the expected value makes the comparison throw, and the reply
  is 500 "Internal error". And a correctly signed request whose timestamp is more than
  five minutes old by 72.5 ns is accepted: at clock 1700000300001 ms the quotient rounds
  down to 1700000300 + 4194 * 2^-22, the difference to the timestamp is the double 300,
  and the /debate handler runs and posts to the channel.
\<close>

theorem webhook_counterexample:
  "post_slack_webhook token_only fixed_env (debate_request None) = None
   \<and> post_slack_webhook secret_only fixed_env (debate_request (Some (js ''v0=00'')))
       = Some \<lparr> route_reply = Some \<lparr> reply_status = 500, reply_type = None,
                                      reply_body = SendText (js ''Internal error'') \<rparr>,
                handlers_run = [], outbound = [] \<rparr>
   \<and> to_number boundary_env (js ''1700000000.000999927520751953125'')
       = Finite 3565158400002097 (- 21)
   \<and> spec_outside_window (clock boundary_env) 3565158400002097 (- 21)
   \<and> map_option route_reply (post_slack_webhook both_configured boundary_env boundary_request)
       = Some (Some \<lparr> reply_status = 200, reply_type = None,
                reply_body = SendText (generating_prefix @ js ''AI ethics'' @ generating_suffix) \<rparr>)
   \<and> map_option handlers_run (post_slack_webhook both_configured boundary_env boundary_request)
       = Some [HandleDebateCommand debate_payload]
   \<and> map_option (hd \<circ> outbound)
         (post_slack_webhook both_configured boundary_env boundary_request)
       = Some (PostMessage (Some (JStr (js ''C1'')))
                (debate_header @ js ''AI ethics'' @ js ''*'' @ [0x0A]
                 @ combinedText (fst (generateDebate keyed_service (env_synth fixed_env)
                     (js ''AI ethics'') None False 1))))"
proof -
  have a: "post_slack_webhook token_only fixed_env (debate_request None) = None"
    by (simp add: post_slack_webhook_def registerSlackRoutes_def token_only_def)
  have ascii: "\<forall>c \<in> set (js ''v0=00''). c < 0x80" by (simp add: js_def)
  have len: "length (utf8_encode (js ''v0=00'')) = 5"
    by (simp add: utf8_ascii [OF ascii] js_length)
  have len2: "length (utf8_encode (expected_signature secret_only fixed_env raw ts)) = 67" for raw ts
    by (simp add: length_expected fixed_env_def)
  have v: "verifySlackSignature secret_only fixed_env
             (req_rawBody (debate_request (Some (js ''v0=00''))))
             (req_timestamp (debate_request (Some (js ''v0=00''))))
             (req_signature (debate_request (Some (js ''v0=00''))))
           = Inl (JsError (js ''RangeError: Input buffers must have the same byte length''))"
    by (simp add: verifySlackSignature_def debate_request_def fixed_window timingSafeEqual_def
          len len2 js_eq_Nil)
       (simp add: secret_only_def js_eq_Nil)
  have b: "post_slack_webhook secret_only fixed_env (debate_request (Some (js ''v0=00'')))
       = Some \<lparr> route_reply = Some \<lparr> reply_status = 500, reply_type = None,
                                      reply_body = SendText (js ''Internal error'') \<rparr>,
                handlers_run = [], outbound = [] \<rparr>"
    unfolding post_slack_webhook_def slack_webhook_def v
    by (simp add: registerSlackRoutes_def secret_only_def js_eq_Nil reply_with_def)
  have c: "to_number boundary_env (js ''1700000000.000999927520751953125'')
       = Finite 3565158400002097 (- 21)"
    by (simp add: boundary_env_def)
  from a b c boundary_exact show ?thesis
    by (simp add: boundary_accepted boundary_posts)
qed

end
